theory Spec2Isabelle
  imports Main "HOL-Library.Word"
begin

unbundle bit_operations_syntax

section \<open>The loader of linker.c\<close>

text \<open>
  A shallow embedding of \<^verbatim>\<open>src/linker.c\<close>: the pool of module descriptors
  (\<^verbatim>\<open>alloc_info\<close>, \<^verbatim>\<open>free_info\<close>), the file access
  (\<^verbatim>\<open>open_library\<close>, \<^verbatim>\<open>elf_loadsection\<close>), the two walks over
  the section header table, \<^verbatim>\<open>update_symbols\<close>, \<^verbatim>\<open>do_relocate\<close>,
  \<^verbatim>\<open>load_library\<close> and \<^verbatim>\<open>find_library\<close>.

  The global variables of the file and the part of the process the code touches are
  one record, \<open>linker_state\<close>, passed through every function. A C function that
  can end in another way than by returning has the result type \<open>'a outcome\<close>.
  The \<^verbatim>\<open>TRACE\<close> calls are left out; an \<^verbatim>\<open>ERROR\<close> call is an event of the trace.
\<close>

subsection \<open>Machine types and outcomes\<close>

type_synonym u8 = "8 word"
type_synonym u16 = "16 word"
type_synonym u32 = "32 word"

text \<open>
  \<open>Returns\<close>: the C function returns. \<open>Exits\<close>: it calls \<^verbatim>\<open>exit\<close>, the process
  ends. \<open>UB\<close>: it does something the C standard leaves undefined (an access
  outside every object the loader owns, a null pointer dereferenced, an uninitialised
  variable read). \<open>Diverges\<close>: a loop over a linked list never ends.
\<close>

datatype 'a outcome = Returns 'a | Exits int | UB | Diverges

subsection \<open>linker.h and elf.h\<close>

text \<open>
  \<^verbatim>\<open>linker.h\<close> is not among the sources. Its three constants that linker.c
  uses are parameters of the model, collected in one record.
\<close>

record linker_h =
  SOINFO_NAME_LEN :: nat
  FLAG_LINKED :: u32
  FLAG_ERROR :: u32

text \<open>
  \<^verbatim>\<open>struct soinfo\<close>, with the fields linker.c reads or writes. A pointer to a
  descriptor is a natural number: \<^verbatim>\<open>sopool + i\<close> is \<open>i\<close>, larger numbers are
  descriptors outside the pool; \<open>None\<close> is \<^verbatim>\<open>NULL\<close>. The fields
  \<^verbatim>\<open>next\<close> and \<^verbatim>\<open>image\<close> are renamed, both names being taken in Isabelle.
\<close>

record soinfo =
  name :: string
  flags :: u32
  image_so :: "nat option"
  ba_index :: int
  refcount :: nat
  next_so :: "nat option"

text \<open>
  \<^verbatim>\<open>struct dl_symbol\<close>, an entry of the master symbol table as
  \<^verbatim>\<open>__linker_init\<close> builds it (a name and the result of \<^verbatim>\<open>strtoul\<close>).
\<close>

record dl_symbol =
  dl_name :: "u8 list"
  dl_value :: u32

text \<open>The values of \<^verbatim>\<open>elf.h\<close> (the ELF format, i386).\<close>

definition ELFMAG :: "u8 list" where "ELFMAG = [0x7f, 0x45, 0x4c, 0x46]"
definition ET_REL :: u16 where "ET_REL = 1"
definition SHT_PROGBITS :: u32 where "SHT_PROGBITS = 1"
definition SHT_SYMTAB :: u32 where "SHT_SYMTAB = 2"
definition SHT_RELA :: u32 where "SHT_RELA = 4"
definition SHT_NOBITS :: u32 where "SHT_NOBITS = 8"
definition SHT_REL :: u32 where "SHT_REL = 9"
definition SHN_UNDEF :: u16 where "SHN_UNDEF = 0"
definition SHN_ABS :: u16 where "SHN_ABS = 0xfff1"
definition R_386_32 :: u32 where "R_386_32 = 1"
definition R_386_PC32 :: u32 where "R_386_PC32 = 2"

definition ELF32_R_SYM :: "u32 \<Rightarrow> u32" where "ELF32_R_SYM i = drop_bit 8 i"
definition ELF32_R_TYPE :: "u32 \<Rightarrow> u32" where "ELF32_R_TYPE i = i AND 0xff"

text \<open>\<^verbatim>\<open>sizeof(Elf32_Sym)\<close> and \<^verbatim>\<open>sizeof(Elf32_Rel)\<close>.\<close>

definition sizeof_Elf32_Sym :: nat where "sizeof_Elf32_Sym = 16"
definition sizeof_Elf32_Rel :: nat where "sizeof_Elf32_Rel = 8"

text \<open>
  The fields of \<^verbatim>\<open>Elf32_Ehdr\<close> and \<^verbatim>\<open>Elf32_Shdr\<close> that linker.c reads.
\<close>

record Elf32_Ehdr =
  e_ident :: "u8 list"
  e_type :: u16
  e_shoff :: u32
  e_shnum :: u16
  e_shstrndx :: u16

record Elf32_Shdr =
  sh_name :: u32
  sh_type :: u32
  sh_addr :: u32
  sh_offset :: u32
  sh_size :: u32
  sh_info :: u32

subsection \<open>Files, memory and the state of the loader\<close>

text \<open>
  A file of the file system. \<open>content\<close> is its bytes. Decoding the two header
  structures from the bytes is not modelled: \<open>ehdr\<close> is what
  \<^verbatim>\<open>read(fd, &hdr, sizeof(hdr))\<close> leaves in \<^verbatim>\<open>hdr\<close>, and \<open>shtab\<close> the complete
  section headers the file holds from offset \<^verbatim>\<open>e_shoff\<close> on. \<open>is_reg\<close> is
  \<^verbatim>\<open>S_ISREG\<close> of its mode, \<open>can_open\<close> whether \<^verbatim>\<open>open\<close> succeeds, \<open>read_err\<close>
  whether every \<^verbatim>\<open>read\<close> fails with -1.
\<close>

record elf_file =
  is_reg :: bool
  can_open :: bool
  read_err :: bool
  ehdr :: Elf32_Ehdr
  shtab :: "Elf32_Shdr list"
  content :: "u8 list"

text \<open>An open file descriptor: the file and the position of the next read.\<close>

record fdesc =
  fd_file :: elf_file
  fd_pos :: nat

text \<open>What the loader asks of the system and what it reports, in order.\<close>

datatype err_msg =
  NameTooLong | TooManyLibraries | NotInSolist | LseekFailed | ReadFailed
  | NotValidElf | ErrorObjectType | NoMemory | UnsupportedRelocation u32 | RecursiveLink

datatype event =
  Stat string | Open string | Lseek nat | Read nat | Close | Calloc nat | Error err_msg

text \<open>
  The state: the five static variables of linker.c that are used (\<^verbatim>\<open>sonext\<close> is
  declared and never used), the file system, the heap and the trace of events.
  \<open>sopool\<close> maps every descriptor pointer to the descriptor there. \<open>mem\<close> is the
  memory of the buffers \<^verbatim>\<open>calloc\<close> has handed out, by address; an address that is
  \<open>None\<close> belongs to no buffer. \<open>brk\<close> is where the next buffer starts: \<^verbatim>\<open>calloc\<close>
  is modelled as handing out consecutive zero-filled blocks below \<open>2 ^ 32\<close>.
  An address is a natural number, and pointer arithmetic does not wrap around: a
  pointer moved past \<open>2 ^ 32\<close> points into no buffer.
\<close>

record linker_state =
  socount :: nat
  sopool :: "nat \<Rightarrow> soinfo"
  freelist :: "nat option"
  solist :: "nat option"
  fs :: "string \<Rightarrow> elf_file option"
  mem :: "nat \<Rightarrow> u8 option"
  brk :: nat
  trace :: "event list"

definition SO_MAX :: nat where "SO_MAX = 64"

definition log_event :: "event \<Rightarrow> linker_state \<Rightarrow> linker_state" where
  "log_event e st = st\<lparr>trace := trace st @ [e]\<rparr>"

text \<open>\<^verbatim>\<open>ERROR(...)\<close> of linker_debug.h: a report, here an event of the trace.\<close>

definition ERROR :: "err_msg \<Rightarrow> linker_state \<Rightarrow> linker_state" where
  "ERROR m st = log_event (Error m) st"

subsection \<open>The pool: alloc_info and free_info\<close>

text \<open>\<^verbatim>\<open>memset(si, 0, sizeof(soinfo))\<close>.\<close>

definition zero_soinfo :: soinfo where
  "zero_soinfo = \<lparr>name = [], flags = 0, image_so = None, ba_index = 0, refcount = 0,
     next_so = None\<rparr>"

text \<open>
  \<^verbatim>\<open>alloc_info\<close>, lines 93 to 126. The descriptor it returns is taken off the free
  list and its \<^verbatim>\<open>next\<close> is cleared; no statement puts it on \<^verbatim>\<open>solist\<close>.
  \<^verbatim>\<open>sopool + socount\<close> past the array (\<open>socount > SO_MAX\<close>) is undefined.
\<close>

definition alloc_pop :: "string \<Rightarrow> linker_state \<Rightarrow> (linker_state \<times> nat option) outcome" where
  "alloc_pop nm st =
     (case freelist st of
        None \<Rightarrow> UB
      | Some si \<Rightarrow>
          Returns (st\<lparr>freelist := next_so (sopool st si),
                      sopool := (sopool st)(si := zero_soinfo\<lparr>name := nm, ba_index := -1,
                                                 next_so := None, refcount := 0\<rparr>)\<rparr>,
                   Some si))"

definition alloc_info :: "linker_h \<Rightarrow> string \<Rightarrow> linker_state \<Rightarrow> (linker_state \<times> nat option) outcome" where
  "alloc_info cfg nm st =
     (if length nm \<ge> SOINFO_NAME_LEN cfg then Returns (ERROR NameTooLong st, None)
      else if freelist st = None then
        (if socount st = SO_MAX then Returns (ERROR TooManyLibraries st, None)
         else if socount st > SO_MAX then UB
         else alloc_pop nm
                (st\<lparr>freelist := Some (socount st),
                    socount := socount st + 1,
                    sopool := (sopool st)(socount st := (sopool st (socount st))\<lparr>next_so := None\<rparr>)\<rparr>))
      else alloc_pop nm st)"

text \<open>
  The loop of \<^verbatim>\<open>free_info\<close>, lines 134 to 138: it returns \<^verbatim>\<open>prev\<close> and \<^verbatim>\<open>trav\<close>
  as they are when the loop ends, and nothing (\<open>None\<close>) when it never ends.
\<close>

partial_function (option) free_scan ::
  "(nat \<Rightarrow> soinfo) \<Rightarrow> nat \<Rightarrow> nat option \<Rightarrow> nat option \<Rightarrow> (nat option \<times> nat option) option" where
  "free_scan h si prev trav =
     (if trav = None then Some (prev, None)
      else if trav = Some si then Some (prev, trav)
      else free_scan h si trav (next_so (h (the trav))))"

text \<open>
  \<^verbatim>\<open>free_info\<close>, lines 128 to 151. \<^verbatim>\<open>prev->next\<close> with \<^verbatim>\<open>prev\<close> null (the
  descriptor is the first of \<^verbatim>\<open>solist\<close>) is undefined.
\<close>

definition free_info :: "nat \<Rightarrow> linker_state \<Rightarrow> linker_state outcome" where
  "free_info si st =
     (case free_scan (sopool st) si None (solist st) of
        None \<Rightarrow> Diverges
      | Some (prev, None) \<Rightarrow> Returns (ERROR NotInSolist st)
      | Some (None, Some t) \<Rightarrow> UB
      | Some (Some p, Some t) \<Rightarrow>
          (let h1 = (sopool st)(p := (sopool st p)\<lparr>next_so := next_so (sopool st si)\<rparr>);
               h2 = h1(si := (h1 si)\<lparr>next_so := freelist st\<rparr>)
           in Returns (st\<lparr>sopool := h2, freelist := Some si\<rparr>)))"

text \<open>The cells of a list of descriptors from \<open>p\<close> to \<^verbatim>\<open>NULL\<close>, in order.\<close>

fun so_chain :: "(nat \<Rightarrow> soinfo) \<Rightarrow> nat option \<Rightarrow> nat list \<Rightarrow> bool" where
  "so_chain h p [] = (p = None)"
| "so_chain h p (x # xs) = (p = Some x \<and> so_chain h (next_so (h x)) xs)"

subsection \<open>The C library: calloc, stat, open, lseek, read\<close>

text \<open>Sequencing: what follows a call runs only when the call returns.\<close>

definition obind :: "'a outcome \<Rightarrow> ('a \<Rightarrow> 'b outcome) \<Rightarrow> 'b outcome" where
  "obind r f = (case r of Returns x \<Rightarrow> f x | Exits c \<Rightarrow> Exits c | UB \<Rightarrow> UB | Diverges \<Rightarrow> Diverges)"

text \<open>
  \<^verbatim>\<open>calloc\<close> of \<open>n\<close> bytes: the next block, zero-filled, or \<^verbatim>\<open>NULL\<close> when the
  address space is used up; for \<open>n = 0\<close> a block of no byte, with an address of its
  own (as the GNU C library does). With \<open>in_mem\<close> false the block is only reserved:
  the section header array and the section name table are held as values of the model
  (a list of records, a list of bytes), not as bytes of \<open>mem\<close>.
\<close>

definition zero_fill :: "(nat \<Rightarrow> u8 option) \<Rightarrow> nat \<Rightarrow> nat \<Rightarrow> nat \<Rightarrow> u8 option" where
  "zero_fill m b n a = (if b \<le> a \<and> a < b + n then Some 0 else m a)"

definition calloc :: "bool \<Rightarrow> nat \<Rightarrow> linker_state \<Rightarrow> linker_state \<times> nat option" where
  "calloc in_mem n st =
     (if brk st + n \<ge> 2 ^ 32 then (log_event (Calloc n) st, None)
      else ((log_event (Calloc n) st)
              \<lparr>mem := (if in_mem then zero_fill (mem st) (brk st) n else mem st),
               brk := brk st + max n 1\<rparr>,
            Some (brk st)))"

text \<open>\<^verbatim>\<open>_open_lib\<close>, lines 158 to 169.\<close>

definition open_lib :: "string \<Rightarrow> linker_state \<Rightarrow> linker_state \<times> fdesc option" where
  "open_lib path st =
     (case fs st path of
        None \<Rightarrow> (log_event (Stat path) st, None)
      | Some f \<Rightarrow>
          if is_reg f then
            (if can_open f
             then (log_event (Open path) (log_event (Stat path) st), Some \<lparr>fd_file = f, fd_pos = 0\<rparr>)
             else (log_event (Open path) (log_event (Stat path) st), None))
          else (log_event (Stat path) st, None))"

definition sopaths :: "string list" where "sopaths = [''.'']"

text \<open>
  The loop of \<^verbatim>\<open>open_library\<close> over \<^verbatim>\<open>sopaths\<close>; \<^verbatim>\<open>snprintf\<close> into a
  buffer of 512 bytes keeps at most 511 characters.
\<close>

fun open_paths :: "string list \<Rightarrow> string \<Rightarrow> linker_state \<Rightarrow> linker_state \<times> fdesc option" where
  "open_paths [] nm st = (st, None)"
| "open_paths (p # ps) nm st =
     (case open_lib (take 511 (p @ ''/'' @ nm)) st of
        (st1, Some fd) \<Rightarrow> (st1, Some fd)
      | (st1, None) \<Rightarrow> open_paths ps nm st1)"

text \<open>
  \<^verbatim>\<open>open_library\<close>, lines 173 to 194. A name is a string here, so the test
  \<^verbatim>\<open>name == 0\<close> has no counterpart.
\<close>

definition open_library :: "string \<Rightarrow> linker_state \<Rightarrow> linker_state \<times> fdesc option" where
  "open_library nm st =
     (if length nm > 256 then (st, None)
      else if nm \<noteq> [] \<and> hd nm = CHR ''/'' then
        (case open_lib nm st of
           (st1, Some fd) \<Rightarrow> (st1, Some fd)
         | (st1, None) \<Rightarrow> open_paths sopaths nm st1)
      else open_paths sopaths nm st)"

text \<open>
  \<^verbatim>\<open>lseek(fd, off, SEEK_SET)\<close> with the 32-bit \<^verbatim>\<open>off_t\<close> of i386: an offset from
  \<open>2 ^ 31\<close> on is negative and refused, the position stays. The boolean is
  \<^verbatim>\<open>lseek(...) >= 0\<close>.
\<close>

definition lseek :: "nat \<Rightarrow> fdesc \<Rightarrow> linker_state \<Rightarrow> linker_state \<times> fdesc \<times> bool" where
  "lseek off fd st =
     (if off < 2 ^ 31 then (log_event (Lseek off) st, fd\<lparr>fd_pos := off\<rparr>, True)
      else (log_event (Lseek off) st, fd, False))"

text \<open>
  The bytes \<^verbatim>\<open>read(fd, buf, n)\<close> delivers: at most \<open>n\<close>, from the position on;
  \<open>None\<close> when it returns -1.
\<close>

definition read_bytes :: "nat \<Rightarrow> fdesc \<Rightarrow> u8 list option" where
  "read_bytes n fd =
     (if read_err (fd_file fd) then None
      else Some (take n (drop (fd_pos fd) (content (fd_file fd)))))"

subsection \<open>Memory\<close>

text \<open>Little-endian values, as i386 reads and writes them.\<close>

definition le16 :: "u8 \<Rightarrow> u8 \<Rightarrow> u16" where
  "le16 b0 b1 = ucast b0 OR push_bit 8 (ucast b1)"

definition le32 :: "u8 \<Rightarrow> u8 \<Rightarrow> u8 \<Rightarrow> u8 \<Rightarrow> u32" where
  "le32 b0 b1 b2 b3 =
     ucast b0 OR push_bit 8 (ucast b1) OR push_bit 16 (ucast b2) OR push_bit 24 (ucast b3)"

text \<open>An access that touches an address of no buffer has no result (\<open>None\<close>).\<close>

definition load16 :: "(nat \<Rightarrow> u8 option) \<Rightarrow> nat \<Rightarrow> u16 option" where
  "load16 m a =
     (case (m a, m (a + 1)) of
        (Some b0, Some b1) \<Rightarrow> Some (le16 b0 b1)
      | _ \<Rightarrow> None)"

definition load32 :: "(nat \<Rightarrow> u8 option) \<Rightarrow> nat \<Rightarrow> u32 option" where
  "load32 m a =
     (case (m a, m (a + 1), m (a + 2), m (a + 3)) of
        (Some b0, Some b1, Some b2, Some b3) \<Rightarrow> Some (le32 b0 b1 b2 b3)
      | _ \<Rightarrow> None)"

definition store32 :: "(nat \<Rightarrow> u8 option) \<Rightarrow> nat \<Rightarrow> u32 \<Rightarrow> (nat \<Rightarrow> u8 option) option" where
  "store32 m a v =
     (if m a = None \<or> m (a + 1) = None \<or> m (a + 2) = None \<or> m (a + 3) = None then None
      else Some (m(a \<mapsto> ucast v, a + 1 \<mapsto> ucast (drop_bit 8 v),
                   a + 2 \<mapsto> ucast (drop_bit 16 v), a + 3 \<mapsto> ucast (drop_bit 24 v))))"

fun store_bytes :: "(nat \<Rightarrow> u8 option) \<Rightarrow> nat \<Rightarrow> u8 list \<Rightarrow> (nat \<Rightarrow> u8 option) option" where
  "store_bytes m a [] = Some m"
| "store_bytes m a (b # bs) =
     (if m a = None then None else store_bytes (m(a \<mapsto> b)) (Suc a) bs)"

text \<open>
  The C string at \<^verbatim>\<open>tbl + off\<close>, without its terminator; \<open>None\<close> when reading it
  leaves the table.
\<close>

definition cstring_at :: "u8 list \<Rightarrow> nat \<Rightarrow> u8 list option" where
  "cstring_at tbl off =
     (if off < length tbl \<and> 0 \<in> set (drop off tbl)
      then Some (takeWhile (\<lambda>b. b \<noteq> 0) (drop off tbl)) else None)"

subsection \<open>The two walks over the section headers\<close>

text \<open>The bytes of \<^verbatim>\<open>".data"\<close> and \<^verbatim>\<open>".text"\<close>.\<close>

definition dot_data :: "u8 list" where "dot_data = [0x2e, 0x64, 0x61, 0x74, 0x61]"
definition dot_text :: "u8 list" where "dot_text = [0x2e, 0x74, 0x65, 0x78, 0x74]"

text \<open>
  \<^verbatim>\<open>!strcmp(sname,".data") || !strcmp(sname,".text")\<close> with
  \<^verbatim>\<open>sname = shstrtbl + p->sh_name\<close>.
\<close>

definition data_or_text :: "u8 list \<Rightarrow> Elf32_Shdr \<Rightarrow> bool option" where
  "data_or_text shstrtbl p =
     (case cstring_at shstrtbl (unat (sh_name p)) of
        None \<Rightarrow> None
      | Some sname \<Rightarrow> Some (sname = dot_data \<or> sname = dot_text))"

text \<open>
  The first walk, lines 382 to 411, from section \<open>i\<close> on: it returns
  \<^verbatim>\<open>totalsize\<close> and \<^verbatim>\<open>symindex\<close>. \<^verbatim>\<open>totalsize\<close> is an \<^verbatim>\<open>int\<close> to which
  unsigned sizes are added and which \<^verbatim>\<open>calloc\<close> takes as a \<^verbatim>\<open>size_t\<close>: a 32-bit
  word.
\<close>

fun collect_sizes :: "u8 list \<Rightarrow> Elf32_Shdr list \<Rightarrow> nat \<Rightarrow> u32 \<Rightarrow> nat \<Rightarrow> (u32 \<times> nat) outcome" where
  "collect_sizes shstrtbl [] i totalsize symindex = Returns (totalsize, symindex)"
| "collect_sizes shstrtbl (p # ps) i totalsize symindex =
     (if sh_type p = SHT_PROGBITS then
        (case data_or_text shstrtbl p of
           None \<Rightarrow> UB
         | Some True \<Rightarrow> collect_sizes shstrtbl ps (Suc i) (totalsize + sh_size p) symindex
         | Some False \<Rightarrow> collect_sizes shstrtbl ps (Suc i) totalsize symindex)
      else if sh_type p = SHT_NOBITS then
        collect_sizes shstrtbl ps (Suc i) (totalsize + sh_size p) symindex
      else if sh_type p = SHT_SYMTAB then
        collect_sizes shstrtbl ps (Suc i) (totalsize + sh_size p) i
      else if sh_type p = SHT_RELA \<or> sh_type p = SHT_REL then
        (case data_or_text shstrtbl p of
           None \<Rightarrow> UB
         | Some True \<Rightarrow> collect_sizes shstrtbl ps (Suc i) (totalsize + sh_size p) symindex
         | Some False \<Rightarrow> collect_sizes shstrtbl ps (Suc i) totalsize symindex)
      else collect_sizes shstrtbl ps (Suc i) totalsize symindex)"

text \<open>
  \<^verbatim>\<open>elf_loadsection\<close>, lines 229 to 233: the result of \<^verbatim>\<open>lseek\<close> and of
  \<^verbatim>\<open>read\<close> is not looked at. The bytes delivered go to \<open>q\<close> and the addresses after
  it; one of them outside every buffer is undefined.
\<close>

definition elf_loadsection :: "Elf32_Shdr \<Rightarrow> nat \<Rightarrow> fdesc \<Rightarrow> linker_state \<Rightarrow> (linker_state \<times> fdesc) outcome" where
  "elf_loadsection s q fd st =
     (case lseek (unat (sh_offset s)) fd st of
        (st1, fd1, _) \<Rightarrow>
          (case read_bytes (unat (sh_size s)) fd1 of
             None \<Rightarrow> Returns (log_event (Read (unat (sh_size s))) st1, fd1)
           | Some bs \<Rightarrow>
               (case store_bytes (mem st1) q bs of
                  None \<Rightarrow> UB
                | Some m \<Rightarrow>
                    Returns ((log_event (Read (unat (sh_size s))) st1)\<lparr>mem := m\<rparr>,
                             fd1\<lparr>fd_pos := fd_pos fd1 + length bs\<rparr>))))"

text \<open>
  The second walk, lines 418 to 450, with the write cursor \<open>q\<close>: after every
  section, loaded or not, \<^verbatim>\<open>q += p->sh_size\<close>. No statement of the walk assigns
  \<^verbatim>\<open>sh_addr\<close>, so the headers are not part of its result.
\<close>

fun load_sections :: "u8 list \<Rightarrow> Elf32_Shdr list \<Rightarrow> nat \<Rightarrow> fdesc \<Rightarrow> linker_state \<Rightarrow> (linker_state \<times> fdesc) outcome" where
  "load_sections shstrtbl [] q fd st = Returns (st, fd)"
| "load_sections shstrtbl (p # ps) q fd st =
     obind
       (if sh_type p = SHT_PROGBITS then
          (case data_or_text shstrtbl p of
             None \<Rightarrow> UB
           | Some True \<Rightarrow> elf_loadsection p q fd st
           | Some False \<Rightarrow> Returns (st, fd))
        else if sh_type p = SHT_NOBITS \<or> sh_type p = SHT_SYMTAB then elf_loadsection p q fd st
        else if sh_type p = SHT_RELA \<or> sh_type p = SHT_REL then
          (case data_or_text shstrtbl p of
             None \<Rightarrow> UB
           | Some True \<Rightarrow>
               obind (elf_loadsection p q fd st) (\<lambda>(st1, fd1). elf_loadsection p q fd1 st1)
           | Some False \<Rightarrow> Returns (st, fd))
        else Returns (st, fd))
       (\<lambda>(st1, fd1). load_sections shstrtbl ps (q + unat (sh_size p)) fd1 st1)"

text \<open>
  A section to which neither walk gives a place in the image: it is not
  uninitialised, not a symbol table, and, when of a type the walks select by name,
  named neither \<^verbatim>\<open>.data\<close> nor \<^verbatim>\<open>.text\<close>.
\<close>

definition skipped :: "u8 list \<Rightarrow> Elf32_Shdr \<Rightarrow> bool" where
  "skipped shstrtbl p =
     (sh_type p \<noteq> SHT_NOBITS \<and> sh_type p \<noteq> SHT_SYMTAB
      \<and> (if sh_type p = SHT_PROGBITS \<or> sh_type p = SHT_RELA \<or> sh_type p = SHT_REL
         then data_or_text shstrtbl p = Some False else True))"

subsection \<open>update_symbols and do_relocate\<close>

text \<open>
  A pointer is a 32-bit word on i386, and pointer arithmetic wraps: the address \<open>n\<close>
  bytes after the pointer \<open>p\<close>.
\<close>

definition ptr_add :: "u32 \<Rightarrow> nat \<Rightarrow> nat" where
  "ptr_add p n = unat (p + of_nat n)"

text \<open>
  \<^verbatim>\<open>resolve_symbol\<close>, lines 235 to 239, has no statement: its body is the comment
  \<^verbatim>\<open>//to do\<close>, and the function returns without a value. What the caller then
  takes for its result is indeterminate, so the functions below have it as the
  parameter \<open>rs\<close>: for the section headers and the name passed, \<^verbatim>\<open>NULL\<close> (\<open>None\<close>)
  or the symbol pointed to.
\<close>

text \<open>
  The body of the loop of \<^verbatim>\<open>update_symbols\<close>, lines 254 to 274, for the entry
  \<open>i\<close> of the symbol table the pointer \<open>symtab\<close> points to. In an \<^verbatim>\<open>Elf32_Sym\<close>,
  \<^verbatim>\<open>st_name\<close> is at offset 0, \<^verbatim>\<open>st_value\<close> at 4 and \<^verbatim>\<open>st_shndx\<close> at 14.
  \<open>Exits\<close> keeps no state, so the report that precedes \<^verbatim>\<open>exit(-1)\<close> is not
  recorded.
\<close>

definition update_symbol ::
  "(Elf32_Shdr list \<Rightarrow> u8 list \<Rightarrow> dl_symbol option) \<Rightarrow> Elf32_Shdr list \<Rightarrow> u32 \<Rightarrow> u8 list \<Rightarrow> nat
   \<Rightarrow> linker_state \<Rightarrow> linker_state outcome" where
  "update_symbol rs sechdrs symtab strtab i st =
     (case load16 (mem st) (ptr_add symtab (sizeof_Elf32_Sym * i + 14)) of
        None \<Rightarrow> UB
      | Some st_shndx \<Rightarrow>
          if st_shndx = SHN_UNDEF then
            (case load32 (mem st) (ptr_add symtab (sizeof_Elf32_Sym * i)) of
               None \<Rightarrow> UB
             | Some st_name \<Rightarrow>
                 (case cstring_at strtab (unat st_name) of
                    None \<Rightarrow> UB
                  | Some nm \<Rightarrow>
                      (case rs sechdrs nm of
                         Some dlsym \<Rightarrow>
                           (case store32 (mem st) (ptr_add symtab (sizeof_Elf32_Sym * i + 4))
                                   (dl_value dlsym) of
                              None \<Rightarrow> UB
                            | Some m \<Rightarrow> Returns (st\<lparr>mem := m\<rparr>))
                       | None \<Rightarrow> Exits (- 1))))
          else if st_shndx = SHN_ABS then Returns st
          else if unat st_shndx < length sechdrs then
            (case store32 (mem st) (ptr_add symtab (sizeof_Elf32_Sym * i + 4))
                    (sh_addr (sechdrs ! unat st_shndx)) of
               None \<Rightarrow> UB
             | Some m \<Rightarrow> Returns (st\<lparr>mem := m\<rparr>))
          else UB)"

fun update_symbols_loop ::
  "(Elf32_Shdr list \<Rightarrow> u8 list \<Rightarrow> dl_symbol option) \<Rightarrow> Elf32_Shdr list \<Rightarrow> u32 \<Rightarrow> u8 list \<Rightarrow> nat list
   \<Rightarrow> linker_state \<Rightarrow> linker_state outcome" where
  "update_symbols_loop rs sechdrs symtab strtab [] st = Returns st"
| "update_symbols_loop rs sechdrs symtab strtab (i # js) st =
     obind (update_symbol rs sechdrs symtab strtab i st) (update_symbols_loop rs sechdrs symtab strtab js)"

text \<open>
  \<^verbatim>\<open>update_symbols\<close>, lines 242 to 277: the entries 1 to \<open>num - 1\<close>, the table
  being where \<^verbatim>\<open>sechdrs[symindex].sh_addr\<close> points.
\<close>

definition update_symbols ::
  "(Elf32_Shdr list \<Rightarrow> u8 list \<Rightarrow> dl_symbol option) \<Rightarrow> Elf32_Shdr list \<Rightarrow> nat \<Rightarrow> u8 list
   \<Rightarrow> linker_state \<Rightarrow> linker_state outcome" where
  "update_symbols rs sechdrs symindex strtab st =
     (if symindex < length sechdrs then
        update_symbols_loop rs sechdrs (sh_addr (sechdrs ! symindex)) strtab
          [1 ..< unat (sh_size (sechdrs ! symindex)) div sizeof_Elf32_Sym] st
      else UB)"

text \<open>
  The body of the loop of \<^verbatim>\<open>do_relocate\<close>, lines 290 to 308, for the entry \<open>i\<close>
  of the relocation table (\<^verbatim>\<open>r_offset\<close> at offset 0, \<^verbatim>\<open>r_info\<close> at 4). The second
  component is \<open>Some (- 1)\<close> when the function returns -1 here, \<open>None\<close> when the loop
  goes on. \<open>target\<close> is the pointer \<^verbatim>\<open>where\<close>, a 32-bit word: the sum of line 290
  wraps, and \<^verbatim>\<open>(uint32_t)where\<close> is that word. \<open>symp\<close> is the address of
  \<^verbatim>\<open>sym->st_value\<close>.
\<close>

definition relocate_entry ::
  "Elf32_Shdr list \<Rightarrow> nat \<Rightarrow> nat \<Rightarrow> nat \<Rightarrow> linker_state \<Rightarrow> (linker_state \<times> int option) outcome" where
  "relocate_entry sechdrs symindex relsec i st =
     (case (load32 (mem st) (ptr_add (sh_addr (sechdrs ! relsec)) (sizeof_Elf32_Rel * i)),
            load32 (mem st) (ptr_add (sh_addr (sechdrs ! relsec)) (sizeof_Elf32_Rel * i + 4))) of
        (Some r_offset, Some r_info) \<Rightarrow>
          if unat (sh_info (sechdrs ! relsec)) < length sechdrs \<and> symindex < length sechdrs then
            (let target = sh_addr (sechdrs ! unat (sh_info (sechdrs ! relsec))) + r_offset;
                 symp = ptr_add (sh_addr (sechdrs ! symindex))
                          (sizeof_Elf32_Sym * unat (ELF32_R_SYM r_info) + 4)
             in if ELF32_R_TYPE r_info = R_386_32 then
                  (case (load32 (mem st) (unat target), load32 (mem st) symp) of
                     (Some old, Some st_value) \<Rightarrow>
                       (case store32 (mem st) (unat target) (old + st_value) of
                          None \<Rightarrow> UB
                        | Some m \<Rightarrow> Returns (st\<lparr>mem := m\<rparr>, None))
                   | _ \<Rightarrow> UB)
                else if ELF32_R_TYPE r_info = R_386_PC32 then
                  (case (load32 (mem st) (unat target), load32 (mem st) symp) of
                     (Some old, Some st_value) \<Rightarrow>
                       (case store32 (mem st) (unat target) (old + (st_value - target)) of
                          None \<Rightarrow> UB
                        | Some m \<Rightarrow> Returns (st\<lparr>mem := m\<rparr>, None))
                   | _ \<Rightarrow> UB)
                else Returns (ERROR (UnsupportedRelocation (ELF32_R_TYPE r_info)) st, Some (- 1)))
          else UB
      | _ \<Rightarrow> UB)"

fun do_relocate_loop ::
  "Elf32_Shdr list \<Rightarrow> nat \<Rightarrow> nat \<Rightarrow> nat list \<Rightarrow> linker_state \<Rightarrow> (linker_state \<times> int) outcome" where
  "do_relocate_loop sechdrs symindex relsec [] st = Returns (st, 0)"
| "do_relocate_loop sechdrs symindex relsec (i # js) st =
     obind (relocate_entry sechdrs symindex relsec i st)
       (\<lambda>(st1, r). case r of
            None \<Rightarrow> do_relocate_loop sechdrs symindex relsec js st1
          | Some e \<Rightarrow> Returns (st1, e))"

text \<open>\<^verbatim>\<open>do_relocate\<close>, lines 279 to 311.\<close>

definition do_relocate ::
  "Elf32_Shdr list \<Rightarrow> nat \<Rightarrow> nat \<Rightarrow> linker_state \<Rightarrow> (linker_state \<times> int) outcome" where
  "do_relocate sechdrs symindex relsec st =
     (if relsec < length sechdrs then
        do_relocate_loop sechdrs symindex relsec
          [0 ..< unat (sh_size (sechdrs ! relsec)) div sizeof_Elf32_Rel] st
      else UB)"

subsection \<open>load_library and find_library\<close>

text \<open>\<^verbatim>\<open>verify_elf_object\<close>, lines 209 to 227: the state and the value returned.\<close>

definition verify_elf_object :: "Elf32_Ehdr \<Rightarrow> linker_state \<Rightarrow> linker_state \<times> int" where
  "verify_elf_object hdr st =
     (if take 4 (e_ident hdr) \<noteq> ELFMAG then (st, - 1)
      else if e_type hdr \<noteq> ET_REL then (ERROR ErrorObjectType st, - 1)
      else (st, 0))"

text \<open>
  The label \<^verbatim>\<open>fail\<close>, lines 471 to 474, with the value of \<^verbatim>\<open>si\<close> there.
\<close>

definition load_fail :: "nat option \<Rightarrow> linker_state \<Rightarrow> (linker_state \<times> nat option) outcome" where
  "load_fail si st =
     (case si of
        None \<Rightarrow> Returns (log_event Close st, None)
      | Some s \<Rightarrow> obind (free_info s st) (\<lambda>st1. Returns (log_event Close st1, None)))"

text \<open>
  The loop of lines 457 to 465 over the sections \<open>1\<close> to \<open>e_shnum - 1\<close>. \<open>err\<close> is
  \<open>None\<close> as long as nothing was assigned to the variable, which is declared
  without a value; testing it then is undefined. The boolean is false when the loop
  leaves to \<^verbatim>\<open>fail\<close>.
\<close>

fun relocate_all ::
  "Elf32_Shdr list \<Rightarrow> nat \<Rightarrow> nat list \<Rightarrow> int option \<Rightarrow> linker_state \<Rightarrow> (linker_state \<times> bool) outcome" where
  "relocate_all sechdrs symindex [] err st = Returns (st, True)"
| "relocate_all sechdrs symindex (i # js) err st =
     obind
       (if sh_type (sechdrs ! i) = SHT_REL
        then obind (do_relocate sechdrs symindex i st) (\<lambda>(st1, e). Returns (st1, Some e))
        else Returns (st, err))
       (\<lambda>(st1, err1). case err1 of
            None \<Rightarrow> UB
          | Some e \<Rightarrow> if e \<noteq> 0 then Returns (st1, False)
                      else relocate_all sechdrs symindex js err1 st1)"

text \<open>
  \<^verbatim>\<open>load_library\<close>, lines 381 to 450: the first walk, the image buffer, the
  second walk. The result is \<open>None\<close> when the code leaves to \<^verbatim>\<open>fail\<close>, else the
  file descriptor, \<^verbatim>\<open>symindex\<close> and the address of the image.
\<close>

definition build_image ::
  "nat \<Rightarrow> Elf32_Shdr list \<Rightarrow> u8 list \<Rightarrow> fdesc \<Rightarrow> linker_state
   \<Rightarrow> (linker_state \<times> (fdesc \<times> nat \<times> nat) option) outcome" where
  "build_image si sechdrs shstrtbl fd st =
     obind (collect_sizes shstrtbl sechdrs 0 0 0)
       (\<lambda>(totalsize, symindex).
          case calloc True (unat totalsize) st of
            (st1, None) \<Rightarrow> Returns (ERROR NoMemory st1, None)
          | (st1, Some q) \<Rightarrow>
              obind (load_sections shstrtbl sechdrs q fd
                       (st1\<lparr>sopool := (sopool st1)(si := (sopool st1 si)\<lparr>image_so := Some q\<rparr>)\<rparr>))
                (\<lambda>(st2, fd2). Returns (st2, Some (fd2, symindex, q))))"

text \<open>
  \<^verbatim>\<open>load_library\<close>, lines 452 to 474: the symbols, the relocations, and the
  return of the descriptor or the way over \<^verbatim>\<open>fail\<close>. The section headers are
  those read from the file.
\<close>

definition resolve_and_relocate ::
  "(Elf32_Shdr list \<Rightarrow> u8 list \<Rightarrow> dl_symbol option) \<Rightarrow> nat \<Rightarrow> Elf32_Shdr list \<Rightarrow> nat \<Rightarrow> u8 list
   \<Rightarrow> linker_state \<Rightarrow> (linker_state \<times> nat option) outcome" where
  "resolve_and_relocate rs si sechdrs symindex shstrtbl st =
     obind (update_symbols rs sechdrs symindex shstrtbl st)
       (\<lambda>st3.
          obind (relocate_all sechdrs symindex [1 ..< length sechdrs] None st3)
            (\<lambda>(st4, ok).
               if ok then Returns (log_event Close st4, Some si)
               else load_fail (Some si) st4))"

definition link_sections ::
  "(Elf32_Shdr list \<Rightarrow> u8 list \<Rightarrow> dl_symbol option) \<Rightarrow> nat \<Rightarrow> Elf32_Shdr list \<Rightarrow> u8 list \<Rightarrow> fdesc
   \<Rightarrow> linker_state \<Rightarrow> (linker_state \<times> nat option) outcome" where
  "link_sections rs si sechdrs shstrtbl fd st =
     obind (build_image si sechdrs shstrtbl fd st)
       (\<lambda>(st2, r). case r of
            None \<Rightarrow> load_fail (Some si) st2
          | Some (fd2, symindex, q) \<Rightarrow> resolve_and_relocate rs si sechdrs symindex shstrtbl st2)"

text \<open>
  \<^verbatim>\<open>load_library\<close>, lines 349 to 379, the descriptor being allocated: the section
  headers and the section name table. \<^verbatim>\<open>sechdrs + hdr.e_shstrndx\<close> outside the
  array is undefined.
\<close>

definition load_headers ::
  "(Elf32_Shdr list \<Rightarrow> u8 list \<Rightarrow> dl_symbol option) \<Rightarrow> nat \<Rightarrow> Elf32_Ehdr \<Rightarrow> fdesc
   \<Rightarrow> linker_state \<Rightarrow> (linker_state \<times> nat option) outcome" where
  "load_headers rs si hdr fd st =
     (case calloc False (40 * unat (e_shnum hdr)) st of
        (st1, None) \<Rightarrow> load_fail (Some si) (ERROR NoMemory st1)
      | (st1, Some _) \<Rightarrow>
          (case lseek (unat (e_shoff hdr)) fd st1 of
             (st2, fd2, False) \<Rightarrow> load_fail (Some si) (ERROR LseekFailed st2)
           | (st2, fd2, True) \<Rightarrow>
               if read_err (fd_file fd2) \<or> length (shtab (fd_file fd2)) < unat (e_shnum hdr)
               then load_fail (Some si)
                      (ERROR ReadFailed (log_event (Read (40 * unat (e_shnum hdr))) st2))
               else if unat (e_shstrndx hdr) \<ge> unat (e_shnum hdr) then UB
               else
                 (let sechdrs = take (unat (e_shnum hdr)) (shtab (fd_file fd2));
                      p = sechdrs ! unat (e_shstrndx hdr)
                  in case calloc False (unat (sh_size p))
                            (log_event (Read (40 * unat (e_shnum hdr))) st2) of
                       (st3, None) \<Rightarrow> load_fail (Some si) (ERROR NoMemory st3)
                     | (st3, Some _) \<Rightarrow>
                         (case lseek (unat (sh_offset p)) fd2 st3 of
                            (st4, fd4, False) \<Rightarrow> load_fail (Some si) (ERROR LseekFailed st4)
                          | (st4, fd4, True) \<Rightarrow>
                              (case read_bytes (unat (sh_size p)) fd4 of
                                 None \<Rightarrow>
                                   load_fail (Some si)
                                     (ERROR ReadFailed (log_event (Read (unat (sh_size p))) st4))
                               | Some shstrtbl \<Rightarrow>
                                   if length shstrtbl \<noteq> unat (sh_size p)
                                   then load_fail (Some si)
                                          (ERROR ReadFailed (log_event (Read (unat (sh_size p))) st4))
                                   else link_sections rs si sechdrs shstrtbl
                                          (fd4\<lparr>fd_pos := fd_pos fd4 + length shstrtbl\<rparr>)
                                          (log_event (Read (unat (sh_size p))) st4))))))"

text \<open>
  \<^verbatim>\<open>load_library\<close>, lines 313 to 475. The file is opened, positioned and read,
  and the header verified, before \<^verbatim>\<open>alloc_info\<close> is called.
\<close>

definition load_library ::
  "linker_h \<Rightarrow> (Elf32_Shdr list \<Rightarrow> u8 list \<Rightarrow> dl_symbol option) \<Rightarrow> string
   \<Rightarrow> linker_state \<Rightarrow> (linker_state \<times> nat option) outcome" where
  "load_library cfg rs nm st =
     (case open_library nm st of
        (st1, None) \<Rightarrow> Returns (st1, None)
      | (st1, Some fd) \<Rightarrow>
          (case lseek 0 fd st1 of
             (st2, fd2, False) \<Rightarrow> load_fail None (ERROR LseekFailed st2)
           | (st2, fd2, True) \<Rightarrow>
               if read_err (fd_file fd2)
               then load_fail None (ERROR ReadFailed (log_event (Read 52) st2))
               else
                 (case verify_elf_object (ehdr (fd_file fd2)) (log_event (Read 52) st2) of
                    (st3, v) \<Rightarrow>
                      if v < 0 then load_fail None (ERROR NotValidElf st3)
                      else
                        obind (alloc_info cfg nm st3)
                          (\<lambda>(st4, si).
                             case si of
                               None \<Rightarrow> load_fail None st4
                             | Some s \<Rightarrow> load_headers rs s (ehdr (fd_file fd2)) fd2 st4))))"

text \<open>The loop of \<^verbatim>\<open>find_library\<close>, lines 481 to 488, and what it finds.\<close>

datatype lookup = Absent | Linked nat | Failed | Recursive

partial_function (option) find_scan ::
  "linker_h \<Rightarrow> (nat \<Rightarrow> soinfo) \<Rightarrow> string \<Rightarrow> nat option \<Rightarrow> lookup option" where
  "find_scan cfg h nm si =
     (if si = None then Some Absent
      else if nm = name (h (the si)) then
        (if flags (h (the si)) AND FLAG_ERROR cfg \<noteq> 0 then Some Failed
         else if flags (h (the si)) AND FLAG_LINKED cfg \<noteq> 0 then Some (Linked (the si))
         else Some Recursive)
      else find_scan cfg h nm (next_so (h (the si))))"

text \<open>\<^verbatim>\<open>find_library\<close>, lines 477 to 496.\<close>

definition find_library ::
  "linker_h \<Rightarrow> (Elf32_Shdr list \<Rightarrow> u8 list \<Rightarrow> dl_symbol option) \<Rightarrow> string
   \<Rightarrow> linker_state \<Rightarrow> (linker_state \<times> nat option) outcome" where
  "find_library cfg rs nm st =
     (case find_scan cfg (sopool st) nm (solist st) of
        None \<Rightarrow> Diverges
      | Some Absent \<Rightarrow> load_library cfg rs nm st
      | Some (Linked si) \<Rightarrow> Returns (st, Some si)
      | Some Failed \<Rightarrow> Returns (st, None)
      | Some Recursive \<Rightarrow> Returns (ERROR RecursiveLink st, None))"

text \<open>
  The state before the first call: the static variables as C initialises them, no
  buffer handed out yet, the heap starting at \<open>heap\<close>.
\<close>

definition init_state :: "(string \<Rightarrow> elf_file option) \<Rightarrow> nat \<Rightarrow> linker_state" where
  "init_state fsys heap =
     \<lparr>socount = 0, sopool = (\<lambda>_. zero_soinfo), freelist = None, solist = None,
      fs = fsys, mem = (\<lambda>_. None), brk = heap, trace = []\<rparr>"

section \<open>Concrete inputs\<close>

text \<open>
  The values of Android's linker.h for the three constants, used wherever a concrete
  configuration is needed.
\<close>

definition demo_cfg :: linker_h where
  "demo_cfg = \<lparr>SOINFO_NAME_LEN = 128, FLAG_LINKED = 1, FLAG_ERROR = 2\<rparr>"

text \<open>
  A state whose active list is a static descriptor outside the pool (at 64) followed by
  the pool slot 3.
\<close>

definition demo_listed :: linker_state where
  "demo_listed =
     (init_state (\<lambda>_. None) 4096)
       \<lparr>socount := 4, solist := Some 64,
        sopool := (\<lambda>_. zero_soinfo)
                    (64 := zero_soinfo\<lparr>name := ''libdl.so'', next_so := Some 3\<rparr>,
                     3 := zero_soinfo\<lparr>name := ''a''\<rparr>)\<rparr>"

text \<open>A memory whose only buffer holds the bytes \<open>bs\<close> from the address \<open>base\<close> on.\<close>

definition mem_of :: "nat \<Rightarrow> u8 list \<Rightarrow> nat \<Rightarrow> u8 option" where
  "mem_of base bs a = (if base \<le> a \<and> a < base + length bs then Some (bs ! (a - base)) else None)"

text \<open>A section header, field by field.\<close>

definition shdr :: "u32 \<Rightarrow> u32 \<Rightarrow> u32 \<Rightarrow> u32 \<Rightarrow> u32 \<Rightarrow> u32 \<Rightarrow> Elf32_Shdr" where
  "shdr nm ty addr off sz nfo =
     \<lparr>sh_name = nm, sh_type = ty, sh_addr = addr, sh_offset = off, sh_size = sz, sh_info = nfo\<rparr>"

text \<open>
  A loaded image at 1000: 16 bytes of code (a call with the addend -4 at offset 1, a
  load with the addend 0x10 at offset 6), a symbol table of two entries (the second
  with the value 0x2000) and a relocation table of two entries (a PC-relative one for
  offset 1, a direct one for offset 6, both for the symbol 1), with section headers
  whose address fields hold these addresses.
\<close>

definition demo_rel_sechdrs :: "Elf32_Shdr list" where
  "demo_rel_sechdrs =
     [shdr 0 0 0 0 0 0, shdr 1 1 1000 0 16 0, shdr 7 2 1016 16 32 0, shdr 15 9 1048 48 16 1]"

definition demo_rel_state :: linker_state where
  "demo_rel_state =
     (init_state (\<lambda>_. None) 4096)
       \<lparr>mem := mem_of 1000
          [0xe8, 0xfc, 0xff, 0xff, 0xff, 0xa1, 0x10, 0, 0, 0, 0xc3, 0x90, 0x90, 0x90, 0x90, 0x90,
           0, 0, 0, 0, 0, 0, 0, 0, 0, 0, 0, 0, 0, 0, 0, 0,
           1, 0, 0, 0, 0, 0x20, 0, 0, 0, 0, 0, 0, 0, 0, 1, 0,
           1, 0, 0, 0, 2, 1, 0, 0,
           6, 0, 0, 0, 1, 1, 0, 0]\<rparr>"

text \<open>
  The section name table of the objects below: the empty name at 0, \<^verbatim>\<open>.text\<close> at
  1, \<^verbatim>\<open>.data\<close> at 7, \<^verbatim>\<open>.bss\<close> at 13, \<^verbatim>\<open>.symtab\<close> at 18, \<^verbatim>\<open>.rel.text\<close> at
  26, \<^verbatim>\<open>.shstrtab\<close> at 36 and \<^verbatim>\<open>.comment\<close> at 46; 55 bytes.
\<close>

definition demo_shstrtab :: "u8 list" where
  "demo_shstrtab =
     [0,
      0x2e, 0x74, 0x65, 0x78, 0x74, 0,
      0x2e, 0x64, 0x61, 0x74, 0x61, 0,
      0x2e, 0x62, 0x73, 0x73, 0,
      0x2e, 0x73, 0x79, 0x6d, 0x74, 0x61, 0x62, 0,
      0x2e, 0x72, 0x65, 0x6c, 0x2e, 0x74, 0x65, 0x78, 0x74, 0,
      0x2e, 0x73, 0x68, 0x73, 0x74, 0x72, 0x74, 0x61, 0x62, 0,
      0x2e, 0x63, 0x6f, 0x6d, 0x6d, 0x65, 0x6e, 0x74, 0]"

text \<open>
  A relocatable object file with the section headers \<open>hs\<close>, the section name table
  being the section \<open>strndx\<close>, and the bytes \<open>bs\<close>.
\<close>

definition demo_obj :: "Elf32_Shdr list \<Rightarrow> u16 \<Rightarrow> u8 list \<Rightarrow> elf_file" where
  "demo_obj hs strndx bs =
     \<lparr>is_reg = True, can_open = True, read_err = False,
      ehdr = \<lparr>e_ident = [0x7f, 0x45, 0x4c, 0x46, 1, 1, 1, 0, 0, 0, 0, 0, 0, 0, 0, 0],
               e_type = 1, e_shoff = of_nat (length bs), e_shnum = of_nat (length hs),
               e_shstrndx = strndx\<rparr>,
      shtab = hs, content = bs\<rparr>"

text \<open>
  \<^verbatim>\<open>x\<close>: the null section, an empty relocation table, four bytes of code, the
  section name table.
\<close>

definition demo_x :: elf_file where
  "demo_x =
     demo_obj [shdr 0 0 0 0 0 0, shdr 26 9 0 0 0 2, shdr 1 1 0 0 4 0, shdr 36 3 0 4 55 0] 3
       ([0x90, 0x90, 0x90, 0xc3] @ demo_shstrtab)"

text \<open>
  \<^verbatim>\<open>bss.o\<close>: one code section of size 16 and one uninitialised section of size 8,
  whose file offset is, as usual, that of the data that follows in the file.
\<close>

definition demo_bss :: elf_file where
  "demo_bss =
     demo_obj [shdr 0 0 0 0 0 0, shdr 26 9 0 0 0 2, shdr 1 1 0 0 16 0, shdr 13 8 0 16 8 0,
               shdr 36 3 0 16 55 0] 4
       ([0x55, 0x89, 0xe5, 0xa1, 0, 0, 0, 0, 0x5d, 0xc3, 0x90, 0x90, 0x90, 0x90, 0x90, 0x90]
        @ demo_shstrtab)"

text \<open>
  \<^verbatim>\<open>comment.o\<close>: a \<^verbatim>\<open>.comment\<close> section of 8 bytes before the code section of 16.
\<close>

definition demo_comment :: elf_file where
  "demo_comment =
     demo_obj [shdr 0 0 0 0 0 0, shdr 26 9 0 0 0 3, shdr 46 1 0 0 8 0, shdr 1 1 0 8 16 0,
               shdr 36 3 0 24 55 0] 4
       ([0x47, 0x43, 0x43, 0x3a, 0x20, 0x34, 0x2e, 0,
         0x55, 0x89, 0xe5, 0xa1, 0, 0, 0, 0, 0x5d, 0xc3, 0x90, 0x90, 0x90, 0x90, 0x90, 0x90]
        @ demo_shstrtab)"

text \<open>
  \<^verbatim>\<open>sym.o\<close>: code (16 bytes), data (8 bytes) and a symbol table of two entries,
  the second a symbol defined in the data section (section 3). Every address field is
  0, as in any relocatable object.
\<close>

definition demo_sym_sechdrs :: "Elf32_Shdr list" where
  "demo_sym_sechdrs =
     [shdr 0 0 0 0 0 0, shdr 26 9 0 0 0 2, shdr 1 1 0 0 16 0, shdr 7 1 0 16 8 0,
      shdr 18 2 0 24 32 0, shdr 36 3 0 56 55 0]"

definition demo_sym :: elf_file where
  "demo_sym =
     demo_obj demo_sym_sechdrs 5
       ([0x55, 0x89, 0xe5, 0xa1, 0, 0, 0, 0, 0x5d, 0xc3, 0x90, 0x90, 0x90, 0x90, 0x90, 0x90,
         1, 2, 3, 4, 5, 6, 7, 8,
         0, 0, 0, 0, 0, 0, 0, 0, 0, 0, 0, 0, 0, 0, 0, 0,
         0, 0, 0, 0, 0, 0, 0, 0, 0, 0, 0, 0, 0, 0, 3, 0]
        @ demo_shstrtab)"

text \<open>
  \<^verbatim>\<open>undef.o\<close>: a symbol table of two entries, the second an undefined symbol whose
  name offset is 7; the string table \<^verbatim>\<open>load_library\<close> hands to
  \<^verbatim>\<open>update_symbols\<close> is the section name table, where the offset 7 is
  \<^verbatim>\<open>.data\<close>. The address field of the symbol table is 4311, the address the image
  gets when the heap starts at 4096.
\<close>

definition demo_undef :: elf_file where
  "demo_undef =
     demo_obj [shdr 0 0 0 0 0 0, shdr 26 9 0 0 0 2, shdr 18 2 4311 0 32 0, shdr 36 3 0 32 55 0] 3
       ([0, 0, 0, 0, 0, 0, 0, 0, 0, 0, 0, 0, 0, 0, 0, 0,
         7, 0, 0, 0, 0, 0, 0, 0, 0, 0, 0, 0, 0, 0, 0, 0]
        @ demo_shstrtab)"

text \<open>
  \<^verbatim>\<open>symat.o\<close>: code (16 bytes), data (8 bytes) and a symbol table of three
  entries: the null entry, a symbol defined in the data section (section 3) with the
  value 4 in the file, and an absolute symbol of value 0x1234. The address field of the
  symbol table is 4415, the address the image gives the table when the heap starts at
  4096 (the image is then at 4391, the code at 4391, the data at 4407); the address
  field of the data section is 0, as in any relocatable object.
\<close>

definition demo_symat :: elf_file where
  "demo_symat =
     demo_obj [shdr 0 0 0 0 0 0, shdr 26 9 0 0 0 2, shdr 1 1 0 0 16 0, shdr 7 1 0 16 8 0,
               shdr 18 2 4415 24 48 0, shdr 36 3 0 72 55 0] 5
       ([0x55, 0x89, 0xe5, 0xa1, 0, 0, 0, 0, 0x5d, 0xc3, 0x90, 0x90, 0x90, 0x90, 0x90, 0x90,
         1, 2, 3, 4, 5, 6, 7, 8,
         0, 0, 0, 0, 0, 0, 0, 0, 0, 0, 0, 0, 0, 0, 0, 0,
         0, 0, 0, 0, 4, 0, 0, 0, 0, 0, 0, 0, 0, 0, 3, 0,
         0, 0, 0, 0, 0x34, 0x12, 0, 0, 0, 0, 0, 0, 0, 0, 0xf1, 0xff]
        @ demo_shstrtab)"

text \<open>
  \<^verbatim>\<open>rel.o\<close>: a relocation table of one entry (PC-relative, for the offset 1 of
  section 2 and the symbol 1), 16 bytes of code (a call with the addend -4 at offset
  1), and a symbol table of two entries, the second an absolute symbol of value
  0x2000. The relocation table is section 1 and has the name \<^verbatim>\<open>.text\<close>: the walks
  load no relocation table of another name. With the heap starting at 4096 the image
  is at 4351, the relocation table at 4351, the code at 4359 and the symbol table at
  4375; the address fields of the two tables hold these addresses, that of the code
  section is 0, as in any relocatable object.
\<close>

definition demo_rel :: elf_file where
  "demo_rel =
     demo_obj [shdr 0 0 0 0 0 0, shdr 1 9 4351 0 8 2, shdr 1 1 0 8 16 0, shdr 18 2 4375 24 32 0,
               shdr 36 3 0 56 55 0] 4
       ([1, 0, 0, 0, 2, 1, 0, 0,
         0xe8, 0xfc, 0xff, 0xff, 0xff, 0xa1, 0x10, 0, 0, 0, 0xc3, 0x90, 0x90, 0x90, 0x90, 0x90,
         0, 0, 0, 0, 0, 0, 0, 0, 0, 0, 0, 0, 0, 0, 0, 0,
         0, 0, 0, 0, 0, 0x20, 0, 0, 0, 0, 0, 0, 0, 0, 0xf1, 0xff]
        @ demo_shstrtab)"

text \<open>
  \<^verbatim>\<open>badrel.o\<close>: a relocation table of three entries for the code section (a
  direct one for the offset 6, one of the kind 7 for the offset 1, a direct one for
  the offset 11, all for the symbol 1), 16 bytes of code, and a symbol table of two
  entries, the second an absolute symbol of value 0x2000. Every address field holds
  the address the image gives the section when the heap starts at 4096: the
  relocation table (named \<^verbatim>\<open>.text\<close>) at 4351, the code at 4375, the symbol table
  at 4391.
\<close>

definition demo_badrel :: elf_file where
  "demo_badrel =
     demo_obj [shdr 0 0 0 0 0 0, shdr 1 9 4351 0 24 2, shdr 1 1 4375 24 16 0,
               shdr 18 2 4391 40 32 0, shdr 36 3 0 72 55 0] 4
       ([6, 0, 0, 0, 1, 1, 0, 0,
         1, 0, 0, 0, 7, 1, 0, 0,
         11, 0, 0, 0, 1, 1, 0, 0,
         0xe8, 0xfc, 0xff, 0xff, 0xff, 0xa1, 0x10, 0, 0, 0, 0xc3, 0x90, 0x90, 0x90, 0x90, 0x90,
         0, 0, 0, 0, 0, 0, 0, 0, 0, 0, 0, 0, 0, 0, 0, 0,
         0, 0, 0, 0, 0, 0x20, 0, 0, 0, 0, 0, 0, 0, 0, 0xf1, 0xff]
        @ demo_shstrtab)"

text \<open>The files of the file system: each of the objects, in the directory searched.\<close>

definition demo_fs :: "string \<Rightarrow> elf_file option" where
  "demo_fs p =
     (if p = ''./x'' then Some demo_x
      else if p = ''./bss.o'' then Some demo_bss
      else if p = ''./comment.o'' then Some demo_comment
      else if p = ''./sym.o'' then Some demo_sym
      else if p = ''./undef.o'' then Some demo_undef
      else if p = ''./symat.o'' then Some demo_symat
      else if p = ''./rel.o'' then Some demo_rel
      else if p = ''./badrel.o'' then Some demo_badrel
      else None)"

text \<open>Two calls of \<^verbatim>\<open>find_library\<close> for one name, and what each returned.\<close>

definition find_twice ::
  "linker_h \<Rightarrow> (Elf32_Shdr list \<Rightarrow> u8 list \<Rightarrow> dl_symbol option) \<Rightarrow> string
   \<Rightarrow> linker_state \<Rightarrow> (linker_state \<times> nat option \<times> nat option) outcome" where
  "find_twice cfg rs nm st =
     obind (find_library cfg rs nm st)
       (\<lambda>(st1, r1). obind (find_library cfg rs nm st1) (\<lambda>(st2, r2). Returns (st2, r1, r2)))"

text \<open>
  What a caller sees of a call: the pointer returned and the events. And the bytes
  \<open>off\<close> to \<open>off + n - 1\<close> of the image of the descriptor returned.
\<close>

definition observe :: "(linker_state \<times> nat option) outcome \<Rightarrow> (nat option \<times> event list) outcome" where
  "observe r = obind r (\<lambda>(st, si). Returns (si, trace st))"

definition image_bytes :: "(linker_state \<times> nat option) outcome \<Rightarrow> nat \<Rightarrow> nat \<Rightarrow> u8 option list" where
  "image_bytes r off n =
     (case r of
        Returns (st, Some si) \<Rightarrow>
          (case image_so (sopool st si) of
             Some q \<Rightarrow> map (mem st) [q + off ..< q + off + n]
           | None \<Rightarrow> [])
      | _ \<Rightarrow> [])"

text \<open>A file system in which every path of 130 characters is the object \<^verbatim>\<open>x\<close>.\<close>

definition demo_long_fs :: "string \<Rightarrow> elf_file option" where
  "demo_long_fs p = (if length p = 130 then Some demo_x else None)"

text \<open>
  Two of the results the stub \<^verbatim>\<open>resolve_symbol\<close> may have: \<^verbatim>\<open>NULL\<close> at every
  call; and a symbol of value 0x8048200 for the name \<^verbatim>\<open>.data\<close>, \<^verbatim>\<open>NULL\<close> for
  every other name.
\<close>

definition rs_null :: "Elf32_Shdr list \<Rightarrow> u8 list \<Rightarrow> dl_symbol option" where
  "rs_null sechdrs nm = None"





section \<open>Properties\<close>

subsection \<open>The pool\<close>

lemma free_scan_absent:
  "so_chain h trav xs \<Longrightarrow> si \<notin> set xs \<Longrightarrow>
   \<exists>prev'. free_scan h si prev trav = Some (prev', None)"
proof (induction xs arbitrary: prev trav)
  case Nil
  then show ?case by (simp add: free_scan.simps)
next
  case (Cons x xs)
  from Cons.prems have t: "trav = Some x" and c: "so_chain h (next_so (h x)) xs"
    and ne: "x \<noteq> si" and ni: "si \<notin> set xs" by auto
  from Cons.IH [OF c ni, of "Some x"] obtain prev'
    where "free_scan h si (Some x) (next_so (h x)) = Some (prev', None)" by blast
  with t ne show ?case by (subst free_scan.simps) simp
qed

lemma free_info_not_listed:
  assumes "so_chain (sopool st) (solist st) xs" and "si \<notin> set xs"
  shows "free_info si st = Returns (ERROR NotInSolist st)"
proof -
  from free_scan_absent [OF assms, of None] obtain prev'
    where "free_scan (sopool st) si None (solist st) = Some (prev', None)" by blast
  then show ?thesis by (simp add: free_info_def split: option.split)
qed

text \<open>
  C10. \<^verbatim>\<open>free_info\<close> called on a descriptor that is not on the active list (the
  list being a proper one, ending in \<^verbatim>\<open>NULL\<close>) returns, reports the error, and
  changes nothing else: the pool, both list heads, the descriptors and the memory of
  the result are those of the state it was called in.
\<close>

theorem free_info_absent:
  assumes "so_chain (sopool st) (solist st) xs" and "si \<notin> set xs"
  shows "free_info si st = Returns (st\<lparr>trace := trace st @ [Error NotInSolist]\<rparr>)"
  using free_info_not_listed [OF assms] by (simp add: ERROR_def log_event_def)

theorem free_info_absent_witness:
  "free_info 0 demo_listed = Returns (demo_listed\<lparr>trace := [Error NotInSolist]\<rparr>)"
proof -
  have c: "so_chain (sopool demo_listed) (solist demo_listed) [64, 3]"
    by (simp add: demo_listed_def init_state_def zero_soinfo_def)
  have n: "(0::nat) \<notin> set [64, 3]" by simp
  have t: "trace demo_listed = []" by (simp add: demo_listed_def init_state_def)
  from free_info_absent [OF c n] t show ?thesis by simp
qed

subsection \<open>The loader on concrete objects\<close>

lemmas load_simps = find_library_def find_scan.simps init_state_def load_library_def open_library_def
  sopaths_def open_lib_def log_event_def lseek_def verify_elf_object_def ELFMAG_def ET_REL_def
  ERROR_def alloc_info_def alloc_pop_def SO_MAX_def obind_def load_headers_def calloc_def shdr_def
  read_bytes_def link_sections_def build_image_def resolve_and_relocate_def
  SHT_PROGBITS_def SHT_SYMTAB_def SHT_RELA_def SHT_NOBITS_def SHT_REL_def data_or_text_def
  cstring_at_def dot_data_def dot_text_def elf_loadsection_def update_symbols_def
  sizeof_Elf32_Sym_def sizeof_Elf32_Rel_def do_relocate_def upt_rec load_fail_def zero_soinfo_def
  Let_def demo_cfg_def demo_fs_def demo_obj_def demo_shstrtab_def free_info_def free_scan.simps
  update_symbol_def zero_fill_def load16_def load32_def le16_def le32_def SHN_UNDEF_def SHN_ABS_def
  ptr_add_def

lemma find_twice_x:
  "\<exists>st2. find_twice demo_cfg rs ''x'' (init_state demo_fs 4096) = Returns (st2, Some 0, Some 1)
     \<and> socount st2 = 2 \<and> freelist st2 = None \<and> solist st2 = None
     \<and> flags (sopool st2 0) = 0 \<and> flags (sopool st2 1) = 0
     \<and> image_so (sopool st2 0) = Some 4311 \<and> image_so (sopool st2 1) = Some 4530
     \<and> trace st2 =
         [Stat ''./x'', Open ''./x'', Lseek 0, Read 52, Calloc 160, Lseek 59, Read 160,
          Calloc 55, Lseek 4, Read 55, Calloc 4, Lseek 0, Read 4, Close,
          Stat ''./x'', Open ''./x'', Lseek 0, Read 52, Calloc 160, Lseek 59, Read 160,
          Calloc 55, Lseek 4, Read 55, Calloc 4, Lseek 0, Read 4, Close]"
  by (simp add: find_twice_def load_simps demo_x_def)

text \<open>
  C1. The claim fails on the code. \<^verbatim>\<open>find_library("x")\<close>, called twice from the
  state before the first call, loads the object twice: the first call returns the pool
  slot 0, the second the slot 1; after both the active list is empty and no descriptor
  has a flag set; the file was opened twice and two images were allocated.
\<close>

theorem find_library_twice_loads_twice:
  "\<exists>st2. find_twice demo_cfg rs ''x'' (init_state demo_fs 4096) = Returns (st2, Some 0, Some 1)
     \<and> solist st2 = None
     \<and> flags (sopool st2 0) = 0 \<and> flags (sopool st2 1) = 0
     \<and> image_so (sopool st2 0) = Some 4311 \<and> image_so (sopool st2 1) = Some 4530
     \<and> trace st2 =
         [Stat ''./x'', Open ''./x'', Lseek 0, Read 52, Calloc 160, Lseek 59, Read 160,
          Calloc 55, Lseek 4, Read 55, Calloc 4, Lseek 0, Read 4, Close,
          Stat ''./x'', Open ''./x'', Lseek 0, Read 52, Calloc 160, Lseek 59, Read 160,
          Calloc 55, Lseek 4, Read 55, Calloc 4, Lseek 0, Read 4, Close]"
  using find_twice_x [of rs] by blast

text \<open>
  C9. The claim fails on the code. \<^verbatim>\<open>alloc_info\<close> on the state before the first
  call carves the pool slot 0 and returns it; afterwards the slot is on neither list,
  both being empty. And after two successful loads the two slots carved are on
  neither list.
\<close>

theorem alloc_info_descriptor_on_no_list:
  "(\<exists>st'. alloc_info demo_cfg ''x'' (init_state demo_fs 4096) = Returns (st', Some 0)
      \<and> socount st' = 1 \<and> name (sopool st' 0) = ''x''
      \<and> so_chain (sopool st') (freelist st') [] \<and> so_chain (sopool st') (solist st') [])
   \<and> (\<exists>st2. find_twice demo_cfg rs ''x'' (init_state demo_fs 4096) = Returns (st2, Some 0, Some 1)
      \<and> socount st2 = 2
      \<and> so_chain (sopool st2) (freelist st2) [] \<and> so_chain (sopool st2) (solist st2) [])"
proof
  show "\<exists>st'. alloc_info demo_cfg ''x'' (init_state demo_fs 4096) = Returns (st', Some 0)
      \<and> socount st' = 1 \<and> name (sopool st' 0) = ''x''
      \<and> so_chain (sopool st') (freelist st') [] \<and> so_chain (sopool st') (solist st') []"
    by (simp add: alloc_info_def alloc_pop_def init_state_def demo_cfg_def SO_MAX_def)
  from find_twice_x [of rs] obtain st2
    where "find_twice demo_cfg rs ''x'' (init_state demo_fs 4096) = Returns (st2, Some 0, Some 1)"
      and "socount st2 = 2" and "freelist st2 = None" and "solist st2 = None" by blast
  then show "\<exists>st2. find_twice demo_cfg rs ''x'' (init_state demo_fs 4096)
                 = Returns (st2, Some 0, Some 1)
      \<and> socount st2 = 2
      \<and> so_chain (sopool st2) (freelist st2) [] \<and> so_chain (sopool st2) (solist st2) []"
    by (intro exI [of _ st2]) simp
qed

text \<open>
  C5. The claim fails on the code. In \<^verbatim>\<open>comment.o\<close> the sizes of the included
  sections sum to 16, the size of the image; the second walk moves the cursor over
  the 8 bytes of \<^verbatim>\<open>.comment\<close>, which is not included, and copies the 16 bytes of
  the code section to the offsets 8 to 23: past the end of the image.
\<close>

theorem load_library_writes_past_image:
  "collect_sizes demo_shstrtab (shtab demo_comment) 0 0 0 = Returns (16, 0)
   \<and> load_library demo_cfg rs ''comment.o'' (init_state demo_fs 4096) = UB"
  by (simp add: load_simps demo_comment_def)

text \<open>
  C2. The claim fails on the code. For \<^verbatim>\<open>sym.o\<close>, with the image at 4096, the
  two walks put the data section at 4112 (offset 16) and return; the address field of
  its header is 0 as in the file, that of the symbol table too, and
  \<^verbatim>\<open>update_symbols\<close>, which takes the symbol table to be where that field points,
  reads outside every buffer. So does the whole load.
\<close>

theorem load_sections_leaves_sh_addr:
  "(\<exists>st' fd'. build_image 0 demo_sym_sechdrs demo_shstrtab \<lparr>fd_file = demo_sym, fd_pos = 0\<rparr>
                  (init_state demo_fs 4096) = Returns (st', Some (fd', 4, 4096))
       \<and> map (mem st') [4112 ..< 4120]
           = [Some 1, Some 2, Some 3, Some 4, Some 5, Some 6, Some 7, Some 8]
       \<and> sh_addr (demo_sym_sechdrs ! 3) = 0
       \<and> update_symbols rs demo_sym_sechdrs 4 demo_shstrtab st' = UB)
   \<and> load_library demo_cfg rs ''sym.o'' (init_state demo_fs 4096) = UB"
  by (simp add: load_simps demo_sym_def demo_sym_sechdrs_def)

text \<open>
  C3. The claim fails on the code. \<^verbatim>\<open>symat.o\<close> is loaded and its descriptor
  returned; the image is at 4391 and the data section at 4407 (offset 16). The symbol 1
  of the symbol table (at 4415) is defined in the data section, section 3, and its
  value after the load is 0: the address field of that section in the file, not the
  address the section was loaded at. The absolute symbol 2 keeps its value.
\<close>

theorem update_symbols_value_from_file_header:
  "\<exists>st. load_library demo_cfg rs ''symat.o'' (init_state demo_fs 4096) = Returns (st, Some 0)
      \<and> image_so (sopool st 0) = Some 4391
      \<and> map (mem st) [4407 ..< 4415]
          = [Some 1, Some 2, Some 3, Some 4, Some 5, Some 6, Some 7, Some 8]
      \<and> load16 (mem st) (4415 + 16 + 14) = Some 3
      \<and> load32 (mem st) (4415 + 16 + 4) = Some 0
      \<and> load16 (mem st) (4415 + 32 + 14) = Some SHN_ABS
      \<and> load32 (mem st) (4415 + 32 + 4) = Some 0x1234"
  by (simp add: load_simps demo_symat_def store32_def)

text \<open>
  C6. The claim fails on the code. On a state whose section headers hold the
  addresses of the sections, \<^verbatim>\<open>do_relocate\<close> does the arithmetic claimed: the
  PC-relative entry turns the word 0xfffffffc at 1001 into
  \<open>0xfffffffc + 0x2000 - 1001 = 7187\<close> (modulo \<open>2 ^ 32\<close>), the direct entry the word
  0x10 at 1006 into 0x2010. But the address it patches is the address field of the
  header plus the offset, and in a load that field is the one of the file. For
  \<^verbatim>\<open>rel.o\<close>, with the image at 4351, the two walks put the code at 4359, so the
  word to patch, still 0xfffffffc after the walks, is at 4360; the address field of
  the code section is 0, and \<^verbatim>\<open>do_relocate\<close>, having read the entry (offset 1,
  PC-relative, symbol 1) from the table at 4351, and with the value 0x2000 of the
  symbol 1 in the table at 4375, patches the address 1, outside every buffer. So does
  the whole load.
\<close>

theorem do_relocate_target_from_file_header:
  "(\<exists>st'. do_relocate demo_rel_sechdrs 2 3 demo_rel_state = Returns (st', 0)
       \<and> load32 (mem st') 1001 = Some 7187 \<and> load32 (mem st') 1006 = Some 0x2010)
   \<and> (\<exists>st' fd'. build_image 0 (shtab demo_rel) demo_shstrtab \<lparr>fd_file = demo_rel, fd_pos = 0\<rparr>
                    (init_state demo_fs 4351) = Returns (st', Some (fd', 3, 4351))
       \<and> load32 (mem st') 4360 = Some 0xfffffffc
       \<and> sh_addr (shtab demo_rel ! 2) = 0
       \<and> load32 (mem st') 4351 = Some 1 \<and> load32 (mem st') 4355 = Some 0x102
       \<and> load32 (mem st') (4375 + 16 + 4) = Some 0x2000
       \<and> do_relocate (shtab demo_rel) 3 1 st' = UB)
   \<and> load_library demo_cfg rs ''rel.o'' (init_state demo_fs 4096) = UB"
proof (intro conjI)
  show "\<exists>st'. do_relocate demo_rel_sechdrs 2 3 demo_rel_state = Returns (st', 0)
       \<and> load32 (mem st') 1001 = Some 7187 \<and> load32 (mem st') 1006 = Some 0x2010"
    by (simp add: do_relocate_def demo_rel_state_def demo_rel_sechdrs_def shdr_def init_state_def
          mem_of_def load32_def le32_def sizeof_Elf32_Rel_def sizeof_Elf32_Sym_def ELF32_R_SYM_def
          ELF32_R_TYPE_def R_386_32_def R_386_PC32_def relocate_entry_def ptr_add_def upt_rec
          obind_def store32_def Let_def)
  show "\<exists>st' fd'. build_image 0 (shtab demo_rel) demo_shstrtab \<lparr>fd_file = demo_rel, fd_pos = 0\<rparr>
                    (init_state demo_fs 4351) = Returns (st', Some (fd', 3, 4351))
       \<and> load32 (mem st') 4360 = Some 0xfffffffc
       \<and> sh_addr (shtab demo_rel ! 2) = 0
       \<and> load32 (mem st') 4351 = Some 1 \<and> load32 (mem st') 4355 = Some 0x102
       \<and> load32 (mem st') (4375 + 16 + 4) = Some 0x2000
       \<and> do_relocate (shtab demo_rel) 3 1 st' = UB"
    by (simp add: load_simps demo_rel_def relocate_entry_def ELF32_R_SYM_def ELF32_R_TYPE_def
          R_386_32_def R_386_PC32_def store32_def)
  show "load_library demo_cfg rs ''rel.o'' (init_state demo_fs 4096) = UB"
    by (simp add: load_simps demo_rel_def relocate_entry_def ELF32_R_SYM_def ELF32_R_TYPE_def
          R_386_32_def R_386_PC32_def store32_def)
qed

subsection \<open>The name bound\<close>

lemma open_lib_events:
  assumes "open_lib p st = (st1, r)"
  shows "\<exists>evs. st1 = st\<lparr>trace := trace st @ evs\<rparr> \<and> Error NameTooLong \<notin> set evs
      \<and> (r \<noteq> None \<longrightarrow> evs \<noteq> [] \<and> (\<exists>q. last evs = Open q))"
proof (cases "fs st p")
  case None
  with assms have "st1 = st\<lparr>trace := trace st @ [Stat p]\<rparr>" "r = None"
    by (simp_all add: open_lib_def log_event_def)
  then show ?thesis by (intro exI [of _ "[Stat p]"]) simp
next
  case (Some f)
  show ?thesis
  proof (cases "is_reg f")
    case False
    with Some assms have "st1 = st\<lparr>trace := trace st @ [Stat p]\<rparr>" "r = None"
      by (simp_all add: open_lib_def log_event_def)
    then show ?thesis by (intro exI [of _ "[Stat p]"]) simp
  next
    case True
    with Some assms have "st1 = st\<lparr>trace := trace st @ [Stat p, Open p]\<rparr>"
      by (cases "can_open f") (simp_all add: open_lib_def log_event_def)
    then show ?thesis by (intro exI [of _ "[Stat p, Open p]"]) simp
  qed
qed

lemma events_append:
  assumes "st2 = st\<lparr>trace := trace st @ evs\<rparr>" and "Error NameTooLong \<notin> set evs"
      and "st1 = st2\<lparr>trace := trace st2 @ evs2\<rparr>" and "Error NameTooLong \<notin> set evs2"
      and "r \<noteq> None \<longrightarrow> evs2 \<noteq> [] \<and> (\<exists>q. last evs2 = Open q)"
  shows "\<exists>evs. st1 = st\<lparr>trace := trace st @ evs\<rparr> \<and> Error NameTooLong \<notin> set evs
      \<and> (r \<noteq> None \<longrightarrow> evs \<noteq> [] \<and> (\<exists>q. last evs = Open q))"
  using assms by (intro exI [of _ "evs @ evs2"]) simp

lemma open_paths_events:
  "open_paths ps nm st = (st1, r) \<Longrightarrow>
   \<exists>evs. st1 = st\<lparr>trace := trace st @ evs\<rparr> \<and> Error NameTooLong \<notin> set evs
      \<and> (r \<noteq> None \<longrightarrow> evs \<noteq> [] \<and> (\<exists>q. last evs = Open q))"
proof (induction ps arbitrary: st)
  case Nil
  then show ?case by (intro exI [of _ "[]"]) simp
next
  case (Cons p ps)
  obtain st2 r2 where o: "open_lib (take 511 (p @ ''/'' @ nm)) st = (st2, r2)"
    by (cases "open_lib (take 511 (p @ ''/'' @ nm)) st")
  from open_lib_events [OF o] obtain evs where e: "st2 = st\<lparr>trace := trace st @ evs\<rparr>"
    "Error NameTooLong \<notin> set evs" "r2 \<noteq> None \<longrightarrow> evs \<noteq> [] \<and> (\<exists>q. last evs = Open q)"
    by (elim exE conjE)
  show ?case
  proof (cases r2)
    case None
    with Cons.prems o have "open_paths ps nm st2 = (st1, r)" by simp
    from Cons.IH [OF this] obtain evs2 where e2: "st1 = st2\<lparr>trace := trace st2 @ evs2\<rparr>"
      "Error NameTooLong \<notin> set evs2" "r \<noteq> None \<longrightarrow> evs2 \<noteq> [] \<and> (\<exists>q. last evs2 = Open q)"
      by (elim exE conjE)
    from events_append [OF e(1,2) e2] show ?thesis .
  next
    case (Some fd)
    with Cons.prems o have "st1 = st2" "r = r2" by simp_all
    with e show ?thesis by (intro exI [of _ evs]) simp
  qed
qed

lemma open_library_events:
  assumes "open_library nm st = (st1, r)"
  shows "\<exists>evs. st1 = st\<lparr>trace := trace st @ evs\<rparr> \<and> Error NameTooLong \<notin> set evs
      \<and> (r \<noteq> None \<longrightarrow> evs \<noteq> [] \<and> (\<exists>q. last evs = Open q))"
proof (cases "length nm > 256")
  case True
  with assms have "st1 = st" "r = None" by (simp_all add: open_library_def)
  then show ?thesis by (intro exI [of _ "[]"]) simp
next
  case long: False
  show ?thesis
  proof (cases "nm \<noteq> [] \<and> hd nm = CHR ''/''")
    case False
    with long assms have "open_paths sopaths nm st = (st1, r)"
      by (simp add: open_library_def)
    from open_paths_events [OF this] show ?thesis .
  next
    case True
    obtain st2 r2 where o: "open_lib nm st = (st2, r2)" by (cases "open_lib nm st")
    from open_lib_events [OF o] obtain evs where e: "st2 = st\<lparr>trace := trace st @ evs\<rparr>"
      "Error NameTooLong \<notin> set evs" "r2 \<noteq> None \<longrightarrow> evs \<noteq> [] \<and> (\<exists>q. last evs = Open q)"
      by (elim exE conjE)
    show ?thesis
    proof (cases r2)
      case None
      with True long assms o have "open_paths sopaths nm st2 = (st1, r)"
        by (simp add: open_library_def)
      from open_paths_events [OF this] obtain evs2 where e2: "st1 = st2\<lparr>trace := trace st2 @ evs2\<rparr>"
        "Error NameTooLong \<notin> set evs2" "r \<noteq> None \<longrightarrow> evs2 \<noteq> [] \<and> (\<exists>q. last evs2 = Open q)"
        by (elim exE conjE)
      from events_append [OF e(1,2) e2] show ?thesis .
    next
      case (Some fd)
      with True long assms o have "st1 = st2" "r = r2" by (simp_all add: open_library_def)
      with e show ?thesis by (intro exI [of _ evs]) simp
    qed
  qed
qed

text \<open>
  C8, as amended. A load request whose name has the length \<^verbatim>\<open>SOINFO_NAME_LEN\<close> or
  more fails: \<^verbatim>\<open>load_library\<close> returns \<^verbatim>\<open>NULL\<close>, and the state is the one it
  was called in but for the events (no descriptor is allocated). The name is checked
  by \<^verbatim>\<open>alloc_info\<close>, after the file was opened and its header read and verified:
  when the name-too-long error is reported, an open, a seek and a read of the file
  come right before it.
\<close>

theorem load_library_long_name:
  assumes long: "SOINFO_NAME_LEN cfg \<le> length nm"
  shows "\<exists>evs. load_library cfg rs nm st = Returns (st\<lparr>trace := trace st @ evs\<rparr>, None)
           \<and> (Error NameTooLong \<in> set evs \<longrightarrow>
                (\<exists>pre p. evs = pre @ [Open p, Lseek 0, Read 52, Error NameTooLong, Close]))"
proof -
  obtain st1 r where o: "open_library nm st = (st1, r)" by (cases "open_library nm st")
  from open_library_events [OF o] obtain evs where e: "st1 = st\<lparr>trace := trace st @ evs\<rparr>"
    "Error NameTooLong \<notin> set evs" "r \<noteq> None \<longrightarrow> evs \<noteq> [] \<and> (\<exists>q. last evs = Open q)"
    by (elim exE conjE)
  show ?thesis
  proof (cases r)
    case None
    with o e have "load_library cfg rs nm st = Returns (st\<lparr>trace := trace st @ evs\<rparr>, None)"
      by (simp add: load_library_def)
    with e show ?thesis by blast
  next
    case (Some fd)
    with e obtain q where "evs \<noteq> []" "last evs = Open q" by auto
    then have pq: "evs = butlast evs @ [Open q]" by (metis append_butlast_last_id)
    show ?thesis
    proof (cases "read_err (fd_file fd)")
      case True
      with o Some e have "load_library cfg rs nm st
          = Returns (st\<lparr>trace := trace st @ (evs @ [Lseek 0, Read 52, Error ReadFailed, Close])\<rparr>, None)"
        by (simp add: load_library_def lseek_def load_fail_def ERROR_def log_event_def)
      moreover from e have "Error NameTooLong \<notin> set (evs @ [Lseek 0, Read 52, Error ReadFailed, Close])"
        by simp
      ultimately show ?thesis by blast
    next
      case False
      show ?thesis
      proof (cases "take 4 (e_ident (ehdr (fd_file fd))) \<noteq> ELFMAG")
        case True
        with False o Some e have "load_library cfg rs nm st
            = Returns (st\<lparr>trace := trace st @ (evs @ [Lseek 0, Read 52, Error NotValidElf, Close])\<rparr>, None)"
          by (simp add: load_library_def lseek_def load_fail_def ERROR_def log_event_def
                verify_elf_object_def)
        moreover from e have "Error NameTooLong \<notin> set (evs @ [Lseek 0, Read 52, Error NotValidElf, Close])"
          by simp
        ultimately show ?thesis by blast
      next
        case magic: False
        show ?thesis
        proof (cases "e_type (ehdr (fd_file fd)) \<noteq> ET_REL")
          case True
          with magic False o Some e have "load_library cfg rs nm st
              = Returns (st\<lparr>trace := trace st @ (evs @ [Lseek 0, Read 52, Error ErrorObjectType,
                                                        Error NotValidElf, Close])\<rparr>, None)"
            by (simp add: load_library_def lseek_def load_fail_def ERROR_def log_event_def
                  verify_elf_object_def)
          moreover from e have "Error NameTooLong \<notin> set (evs @ [Lseek 0, Read 52, Error ErrorObjectType,
                                                        Error NotValidElf, Close])"
            by simp
          ultimately show ?thesis by blast
        next
          case rel: False
          with magic False o Some e long have "load_library cfg rs nm st
              = Returns (st\<lparr>trace := trace st @ (evs @ [Lseek 0, Read 52, Error NameTooLong, Close])\<rparr>, None)"
            by (simp add: load_library_def lseek_def load_fail_def ERROR_def log_event_def
                  verify_elf_object_def alloc_info_def obind_def)
          moreover from pq have "evs @ [Lseek 0, Read 52, Error NameTooLong, Close]
              = butlast evs @ [Open q, Lseek 0, Read 52, Error NameTooLong, Close]"
            by (metis append.assoc append_Cons append_Nil)
          ultimately show ?thesis by blast
        qed
      qed
    qed
  qed
qed

theorem load_library_long_name_witness:
  "SOINFO_NAME_LEN demo_cfg \<le> length (replicate 128 (CHR ''a''))
   \<and> (\<exists>evs. load_library demo_cfg rs_null (replicate 128 (CHR ''a''))
               (init_state demo_long_fs 4096)
             = Returns ((init_state demo_long_fs 4096)\<lparr>trace := evs\<rparr>, None))"
proof -
  have l: "SOINFO_NAME_LEN demo_cfg \<le> length (replicate 128 (CHR ''a''))"
    by (simp add: demo_cfg_def)
  have t: "trace (init_state demo_long_fs 4096) = []" by (simp add: init_state_def)
  from load_library_long_name [OF l, of rs_null "init_state demo_long_fs 4096"] l t
  show ?thesis by auto
qed



text \<open>
  C8 as stated fails: a name of 128 characters, the limit being 128, in a file
  system that has this file. The file is looked up, opened, positioned and read
  before the name is rejected.
\<close>

theorem long_name_opened_before_rejected:
  "observe (load_library demo_cfg rs_null (replicate 128 (CHR ''a''))
             (init_state demo_long_fs 4096))
   = Returns (None, [Stat (''./'' @ replicate 128 (CHR ''a'')),
                     Open (''./'' @ replicate 128 (CHR ''a'')),
                     Lseek 0, Read 52, Error NameTooLong, Close])"
  by (simp add: observe_def load_simps demo_x_def demo_long_fs_def)

subsection \<open>Unresolved symbols and unsupported relocations\<close>











text \<open>
  Whatever \<^verbatim>\<open>resolve_symbol\<close> returns for the undefined symbol of \<^verbatim>\<open>undef.o\<close>,
  the load does not return a failure to its caller: either the process exits, or the
  load succeeds.
\<close>

lemma undef_load_exits_or_succeeds:
  "load_library demo_cfg rs ''undef.o'' (init_state demo_fs 4096) = Exits (- 1)
   \<or> (\<exists>st. load_library demo_cfg rs ''undef.o'' (init_state demo_fs 4096)
             = Returns (st, Some 0))"
proof (cases "rs (shtab demo_undef) dot_data")
  case None
  then show ?thesis by (simp add: load_simps demo_undef_def store32_def)
next
  case (Some d)
  then show ?thesis by (simp add: load_simps demo_undef_def store32_def)
qed


subsection \<open>Uninitialised sections\<close>

lemma store_bytes_copies:
  "(\<forall>k<length bs. m (a + k) \<noteq> None) \<Longrightarrow>
   \<exists>m'. store_bytes m a bs = Some m'
     \<and> (\<forall>k<length bs. m' (a + k) = Some (bs ! k))
     \<and> (\<forall>x. x < a \<or> a + length bs \<le> x \<longrightarrow> m' x = m x)"
proof (induction bs arbitrary: m a)
  case Nil
  then show ?case by simp
next
  case (Cons b bs)
  from Cons.prems have ma: "m a \<noteq> None" by (metis add.right_neutral length_greater_0_conv list.simps(3))
  have "\<forall>k<length bs. (m(a \<mapsto> b)) (Suc a + k) \<noteq> None"
  proof (intro allI impI)
    fix k assume "k < length bs"
    then have "Suc k < length (b # bs)" by simp
    with Cons.prems have "m (a + Suc k) \<noteq> None" by blast
    then show "(m(a \<mapsto> b)) (Suc a + k) \<noteq> None" by simp
  qed
  from Cons.IH [OF this] obtain m' where s: "store_bytes (m(a \<mapsto> b)) (Suc a) bs = Some m'"
    and c: "\<forall>k<length bs. m' (Suc a + k) = Some (bs ! k)"
    and o: "\<forall>x. x < Suc a \<or> Suc a + length bs \<le> x \<longrightarrow> m' x = (m(a \<mapsto> b)) x"
    by blast
  have "\<forall>k<length (b # bs). m' (a + k) = Some ((b # bs) ! k)"
  proof (intro allI impI)
    fix k assume k: "k < length (b # bs)"
    show "m' (a + k) = Some ((b # bs) ! k)"
    proof (cases k)
      case 0
      with o show ?thesis by simp
    next
      case (Suc j)
      with k c show ?thesis by simp
    qed
  qed
  moreover have "\<forall>x. x < a \<or> a + length (b # bs) \<le> x \<longrightarrow> m' x = m x"
    using o by auto
  ultimately show ?case using ma s by simp
qed

lemma elf_loadsection_copies:
  assumes "\<not> read_err (fd_file fd)" and "unat (sh_offset s) < 2 ^ 31"
      and "bs = take (unat (sh_size s)) (drop (unat (sh_offset s)) (content (fd_file fd)))"
      and "\<forall>k<length bs. mem st (q + k) \<noteq> None"
  shows "\<exists>st1 fd1. elf_loadsection s q fd st = Returns (st1, fd1)
           \<and> fd_file fd1 = fd_file fd \<and> brk st1 = brk st
           \<and> (\<forall>k<length bs. mem st1 (q + k) = Some (bs ! k))
           \<and> (\<forall>x. x < q \<or> q + length bs \<le> x \<longrightarrow> mem st1 x = mem st x)"
proof -
  from store_bytes_copies [OF assms(4)] obtain m' where "store_bytes (mem st) q bs = Some m'"
    and "\<forall>k<length bs. m' (q + k) = Some (bs ! k)"
    and "\<forall>x. x < q \<or> q + length bs \<le> x \<longrightarrow> m' x = mem st x" by blast
  with assms(1-3) show ?thesis
    by (simp add: elf_loadsection_def lseek_def read_bytes_def log_event_def)
qed


lemma load_sections_nobits:
  "sh_type p = SHT_NOBITS \<Longrightarrow>
   load_sections tbl (p # ps) q fd st
   = obind (elf_loadsection p q fd st)
       (\<lambda>(st1, fd1). load_sections tbl ps (q + unat (sh_size p)) fd1 st1)"
  by (simp add: SHT_NOBITS_def SHT_PROGBITS_def)

lemma collect_sizes_skipped:
  "list_all (skipped tbl) ps \<Longrightarrow>
   collect_sizes tbl (ps @ rest) i t s = collect_sizes tbl rest (i + length ps) t s"
  by (induction ps arbitrary: i) (auto simp: skipped_def split: if_splits)

lemma load_sections_skipped:
  "list_all (skipped tbl) ps \<Longrightarrow> list_all (\<lambda>p. sh_size p = 0) ps \<Longrightarrow>
   load_sections tbl (ps @ rest) q fd st = load_sections tbl rest q fd st"
  by (induction ps) (auto simp: skipped_def obind_def split: if_splits)

lemma load_sections_skipped_end:
  "list_all (skipped tbl) ps \<Longrightarrow> load_sections tbl ps q fd st = Returns (st, fd)"
  by (induction ps arbitrary: q) (auto simp: skipped_def obind_def split: if_splits)

text \<open>
  C4, as amended. The second walk treats an uninitialised (\<^verbatim>\<open>SHT_NOBITS\<close>) section
  as it treats the symbol table: \<^verbatim>\<open>elf_loadsection\<close> is called for it, and the
  cursor moves on by its size. So for a section header table that holds, in this
  order, sections without a place in the image and of size 0 (\<open>pre\<close>), a code section
  of size 16 whose bytes the file has (\<open>t\<close>), an uninitialised section of size 8
  (\<open>b\<close>), and sections without a place in the image (\<open>post\<close>): the sizes sum to 24,
  the image is the 24 bytes that \<^verbatim>\<open>calloc\<close> hands out, the code (the 16 bytes of
  the file at its offset) is at the offsets 0 to 15, and each of the offsets 16 to 23
  holds the byte the file has at the uninitialised section's file offset, and 0 only
  where the file ends before; no other byte of the memory changes.
\<close>

theorem nobits_section_filled_from_file:
  assumes pre: "list_all (skipped tbl) pre" "list_all (\<lambda>p. sh_size p = 0) pre"
      and post: "list_all (skipped tbl) post"
      and t: "sh_type t = SHT_PROGBITS" "data_or_text tbl t = Some True" "sh_size t = 16"
      and b: "sh_type b = SHT_NOBITS" "sh_size b = 8"
      and f: "\<not> read_err (fd_file fd)" "unat (sh_offset t) + 16 \<le> length (content (fd_file fd))"
             "unat (sh_offset t) < 2 ^ 31" "unat (sh_offset b) < 2 ^ 31"
      and h: "brk st + 24 < 2 ^ 32"
  shows "(\<forall>ps q fd0 st0. load_sections tbl (b # ps) q fd0 st0
            = obind (elf_loadsection b q fd0 st0)
                (\<lambda>(st1, fd1). load_sections tbl ps (q + 8) fd1 st1))
       \<and> collect_sizes tbl (pre @ t # b # post) 0 0 0 = Returns (24, 0)
       \<and> (\<exists>st' fd'. build_image si (pre @ t # b # post) tbl fd st
                       = Returns (st', Some (fd', 0, brk st))
            \<and> (\<forall>k<16. mem st' (brk st + k)
                   = Some (content (fd_file fd) ! (unat (sh_offset t) + k)))
            \<and> (\<forall>k<8. mem st' (brk st + 16 + k)
                   = Some (if unat (sh_offset b) + k < length (content (fd_file fd))
                           then content (fd_file fd) ! (unat (sh_offset b) + k) else 0))
            \<and> (\<forall>a. a < brk st \<or> brk st + 24 \<le> a \<longrightarrow> mem st' a = mem st a))"
proof (intro conjI)
  show "\<forall>ps q fd0 st0. load_sections tbl (b # ps) q fd0 st0
            = obind (elf_loadsection b q fd0 st0)
                (\<lambda>(st1, fd1). load_sections tbl ps (q + 8) fd1 st1)"
    using load_sections_nobits [OF b(1)] b(2) by simp
next
  have nb: "sh_type b \<noteq> SHT_PROGBITS" using b(1) by (simp add: SHT_NOBITS_def SHT_PROGBITS_def)
  have "collect_sizes tbl (post @ []) (Suc (Suc (length pre))) 24 0 = Returns (24, 0)"
    by (simp only: collect_sizes_skipped [OF post] collect_sizes.simps)
  then show "collect_sizes tbl (pre @ t # b # post) 0 0 0 = Returns (24, 0)"
    using t b nb by (simp add: collect_sizes_skipped [OF pre(1)])
next
  have nb: "sh_type b \<noteq> SHT_PROGBITS" using b(1) by (simp add: SHT_NOBITS_def SHT_PROGBITS_def)
  have "collect_sizes tbl (post @ []) (Suc (Suc (length pre))) 24 0 = Returns (24, 0)"
    by (simp only: collect_sizes_skipped [OF post] collect_sizes.simps)
  then have cs: "collect_sizes tbl (pre @ t # b # post) 0 0 0 = Returns (24, 0)"
    using t b nb by (simp add: collect_sizes_skipped [OF pre(1)])
  define q where "q = brk st"
  define st1 where "st1 = (log_event (Calloc 24) st)
      \<lparr>mem := zero_fill (mem st) q 24, brk := q + 24,
       sopool := (sopool st)(si := (sopool st si)\<lparr>image_so := Some q\<rparr>)\<rparr>"
  define bt where "bt = take 16 (drop (unat (sh_offset t)) (content (fd_file fd)))"
  define bb where "bb = take 8 (drop (unat (sh_offset b)) (content (fd_file fd)))"
  have lt: "length bt = 16" using f(2) by (simp add: bt_def)
  have lb: "length bb \<le> 8" by (simp add: bb_def)
  have m1: "\<And>a. mem st1 a = zero_fill (mem st) q 24 a" by (simp add: st1_def)
  have "\<forall>k<length bt. mem st1 (q + k) \<noteq> None" using lt by (simp add: m1 zero_fill_def)
  from elf_loadsection_copies [where s = t, OF f(1) f(3) _ this] t(3)
  obtain st2 fd2 where l2: "elf_loadsection t q fd st1 = Returns (st2, fd2)"
    and f2: "fd_file fd2 = fd_file fd"
    and c2: "\<forall>k<length bt. mem st2 (q + k) = Some (bt ! k)"
    and o2: "\<forall>x. x < q \<or> q + length bt \<le> x \<longrightarrow> mem st2 x = mem st1 x"
    by (auto simp: bt_def)
  have "\<forall>k<length bb. mem st2 (q + 16 + k) \<noteq> None"
  proof (intro allI impI)
    fix k assume "k < length bb"
    with lb have "k < 8" by simp
    then have "mem st1 (q + 16 + k) = Some 0" by (simp add: m1 zero_fill_def)
    with o2 lt show "mem st2 (q + 16 + k) \<noteq> None" by simp
  qed
  from elf_loadsection_copies [where s = b and fd = fd2, OF _ f(4) _ this] f(1) f2 b(2)
  obtain st3 fd3 where l3: "elf_loadsection b (q + 16) fd2 st2 = Returns (st3, fd3)"
    and c3: "\<forall>k<length bb. mem st3 (q + 16 + k) = Some (bb ! k)"
    and o3: "\<forall>x. x < q + 16 \<or> q + 16 + length bb \<le> x \<longrightarrow> mem st3 x = mem st2 x"
    by (auto simp: bb_def)
  have ca: "calloc True (unat (24::u32)) st
      = ((log_event (Calloc 24) st)\<lparr>mem := zero_fill (mem st) q 24, brk := q + 24\<rparr>, Some q)"
    using h by (simp add: calloc_def q_def)
  have ls: "load_sections tbl (pre @ t # b # post) q fd st1 = Returns (st3, fd3)"
    using l2 l3 t b nb
    by (simp add: load_sections_skipped [OF pre] load_sections_skipped_end [OF post] obind_def)
  have bi: "build_image si (pre @ t # b # post) tbl fd st = Returns (st3, Some (fd3, 0, q))"
    using cs ca ls
    by (simp add: build_image_def obind_def st1_def log_event_def)
  have p1: "\<forall>k<16. mem st3 (q + k) = Some (content (fd_file fd) ! (unat (sh_offset t) + k))"
  proof (intro allI impI)
    fix k :: nat assume k: "k < 16"
    with o3 have "mem st3 (q + k) = mem st2 (q + k)" by simp
    also from c2 lt k have "\<dots> = Some (bt ! k)" by simp
    also from k f(2) have "bt ! k = content (fd_file fd) ! (unat (sh_offset t) + k)"
      by (simp add: bt_def)
    finally show "mem st3 (q + k) = Some (content (fd_file fd) ! (unat (sh_offset t) + k))" .
  qed
  have p2: "\<forall>k<8. mem st3 (q + 16 + k)
                   = Some (if unat (sh_offset b) + k < length (content (fd_file fd))
                           then content (fd_file fd) ! (unat (sh_offset b) + k) else 0)"
  proof (intro allI impI)
    fix k :: nat assume k: "k < 8"
    show "mem st3 (q + 16 + k)
                   = Some (if unat (sh_offset b) + k < length (content (fd_file fd))
                           then content (fd_file fd) ! (unat (sh_offset b) + k) else 0)"
    proof (cases "unat (sh_offset b) + k < length (content (fd_file fd))")
      case True
      with k have kb: "k < length bb" by (simp add: bb_def)
      with c3 have "mem st3 (q + 16 + k) = Some (bb ! k)" by simp
      moreover from True k have "bb ! k = content (fd_file fd) ! (unat (sh_offset b) + k)"
        by (simp add: bb_def)
      ultimately show ?thesis using True by simp
    next
      case False
      with k have "length bb \<le> k" by (simp add: bb_def)
      with o3 have "mem st3 (q + 16 + k) = mem st2 (q + 16 + k)" by simp
      also from o2 lt have "\<dots> = mem st1 (q + 16 + k)" by simp
      also from k have "\<dots> = Some 0" by (simp add: m1 zero_fill_def)
      finally show ?thesis using False by simp
    qed
  qed
  have p3: "\<forall>a. a < q \<or> q + 24 \<le> a \<longrightarrow> mem st3 a = mem st a"
  proof (intro allI impI)
    fix a assume a: "a < q \<or> q + 24 \<le> a"
    with o3 lb have "mem st3 a = mem st2 a" by auto
    also from o2 lt a have "\<dots> = mem st1 a" by auto
    also from a have "\<dots> = mem st a" by (auto simp: m1 zero_fill_def)
    finally show "mem st3 a = mem st a" .
  qed
  from bi p1 p2 p3
  show "\<exists>st' fd'. build_image si (pre @ t # b # post) tbl fd st
                       = Returns (st', Some (fd', 0, brk st))
            \<and> (\<forall>k<16. mem st' (brk st + k)
                   = Some (content (fd_file fd) ! (unat (sh_offset t) + k)))
            \<and> (\<forall>k<8. mem st' (brk st + 16 + k)
                   = Some (if unat (sh_offset b) + k < length (content (fd_file fd))
                           then content (fd_file fd) ! (unat (sh_offset b) + k) else 0))
            \<and> (\<forall>a. a < brk st \<or> brk st + 24 \<le> a \<longrightarrow> mem st' a = mem st a)"
    unfolding q_def by blast
qed

theorem nobits_section_filled_from_file_witness:
  "\<exists>st' fd'. build_image 0 (shtab demo_bss) demo_shstrtab
                 \<lparr>fd_file = demo_bss, fd_pos = 0\<rparr> (init_state demo_fs 4351)
               = Returns (st', Some (fd', 0, 4351))
     \<and> map (mem st') [4351 + 16 ..< 4351 + 24]
         = [Some 0, Some 0x2e, Some 0x74, Some 0x65, Some 0x78, Some 0x74, Some 0, Some 0x2e]"
proof -
  let ?pre = "[shdr 0 0 0 0 0 0, shdr 26 9 0 0 0 2]" and ?post = "[shdr 36 3 0 16 55 0]"
  let ?t = "shdr 1 1 0 0 16 0" and ?b = "shdr 13 8 0 16 8 0"
  let ?fd = "\<lparr>fd_file = demo_bss, fd_pos = 0\<rparr>"
  let ?st = "init_state demo_fs 4351"
  have tab: "shtab demo_bss = ?pre @ ?t # ?b # ?post" by (simp add: demo_bss_def demo_obj_def)
  have pre: "list_all (skipped demo_shstrtab) ?pre" "list_all (\<lambda>p. sh_size p = 0) ?pre"
    by (simp_all add: skipped_def shdr_def SHT_PROGBITS_def SHT_NOBITS_def SHT_SYMTAB_def
          SHT_REL_def SHT_RELA_def data_or_text_def cstring_at_def demo_shstrtab_def
          dot_text_def dot_data_def)
  have post: "list_all (skipped demo_shstrtab) ?post"
    by (simp add: skipped_def shdr_def SHT_PROGBITS_def SHT_NOBITS_def SHT_SYMTAB_def
          SHT_REL_def SHT_RELA_def)
  have t: "sh_type ?t = SHT_PROGBITS" "data_or_text demo_shstrtab ?t = Some True" "sh_size ?t = 16"
    by (simp_all add: shdr_def SHT_PROGBITS_def data_or_text_def cstring_at_def demo_shstrtab_def
          dot_text_def dot_data_def)
  have b: "sh_type ?b = SHT_NOBITS" "sh_size ?b = 8"
    by (simp_all add: shdr_def SHT_NOBITS_def)
  have f: "\<not> read_err (fd_file ?fd)" "unat (sh_offset ?t) + 16 \<le> length (content (fd_file ?fd))"
    "unat (sh_offset ?t) < 2 ^ 31" "unat (sh_offset ?b) < 2 ^ 31"
    by (simp_all add: shdr_def demo_bss_def demo_obj_def)
  have h: "brk ?st + 24 < 2 ^ 32" by (simp add: init_state_def)
  have br: "brk ?st = 4351" by (simp add: init_state_def)
  from nobits_section_filled_from_file [OF pre post t b f h, of 0, THEN conjunct2, THEN conjunct2]
  obtain st' fd' where bi: "build_image 0 (?pre @ ?t # ?b # ?post) demo_shstrtab ?fd ?st
        = Returns (st', Some (fd', 0, brk ?st))"
    and c: "\<forall>k<8. mem st' (brk ?st + 16 + k)
                   = Some (if unat (sh_offset ?b) + k < length (content (fd_file ?fd))
                           then content (fd_file ?fd) ! (unat (sh_offset ?b) + k) else 0)"
    by blast
  have v: "mem st' (brk ?st + 16 + k)
                   = Some (if unat (sh_offset ?b) + k < length (content (fd_file ?fd))
                           then content (fd_file ?fd) ! (unat (sh_offset ?b) + k) else 0)"
    if "k < 8" for k using c that by blast
  from v [of 0] v [of 1] v [of 2] v [of 3] v [of 4] v [of 5] v [of 6] v [of 7]
  have "map (mem st') [4351 + 16 ..< 4351 + 24]
         = [Some 0, Some 0x2e, Some 0x74, Some 0x65, Some 0x78, Some 0x74, Some 0, Some 0x2e]"
    by (simp add: br upt_rec shdr_def demo_bss_def demo_obj_def demo_shstrtab_def)
  with bi tab br show ?thesis by simp
qed

text \<open>
  C4 as stated fails: in \<^verbatim>\<open>bss.o\<close> the uninitialised section has the file offset
  16, where the section name table starts. After the load, the offsets 16 to 23 of the
  image hold the first 8 bytes of that table, not zeros.
\<close>

theorem nobits_section_not_zero_filled:
  "image_bytes (load_library demo_cfg rs_null ''bss.o'' (init_state demo_fs 4096)) 16 8
   = [Some 0, Some 0x2e, Some 0x74, Some 0x65, Some 0x78, Some 0x74, Some 0, Some 0x2e]"
  by (simp add: image_bytes_def load_simps demo_bss_def)

end
